theory Spec2Isabelle
  imports Complex_Main "HOL-Library.Word" "HOL-Library.AList"
begin

unbundle bit_operations_syntax

section \<open>Python values used by the glyph engine\<close>

text \<open>
  Python exceptions are values. Every function of the source that can raise returns a sum
  whose left injection is the exception, or a pair that carries the exception beside the
  state the raise leaves behind.
\<close>

datatype exn = ValueError | ValidationError | OverflowError

text \<open>
  A \<open>datetime\<close> is the number of microseconds since \<open>datetime.min\<close>
  (0001-01-01T00:00:00); \<open>datetime.max\<close> is the last microsecond of the year 9999
  (ordinal day 3652059). \<open>datetime.utcnow()\<close> is an explicit argument \<open>now\<close> of every
  function that reads the clock. A \<open>float\<close> is embedded as a \<open>real\<close>.
\<close>

type_synonym datetime = int

definition datetime_max :: datetime where
  "datetime_max = 3652059 * 86400 * 1000000 - 1"

text \<open>
  \<open>dt + timedelta(seconds=n)\<close>: building the \<open>timedelta\<close> raises \<open>OverflowError\<close> when
  its day count leaves \<open>\<plusminus>999999999\<close>, and the sum raises it when the result leaves
  \<open>datetime.min .. datetime.max\<close>.
\<close>

definition add_seconds :: "datetime \<Rightarrow> int \<Rightarrow> exn + datetime" where
  "add_seconds dt n =
     (if n div 86400 < - 999999999 \<or> 999999999 < n div 86400 then Inl OverflowError
      else if dt + n * 1000000 < 0 \<or> datetime_max < dt + n * 1000000 then Inl OverflowError
      else Inr (dt + n * 1000000))"

subsection \<open>Strings\<close>

definition show_bool :: "bool \<Rightarrow> string" where
  "show_bool b = (if b then ''True'' else ''False'')"

definition digit_char :: "nat \<Rightarrow> char" where
  "digit_char d = ''0123456789'' ! (d mod 10)"

text \<open>\<open>str(n)\<close> of a non-negative integer.\<close>

function show_nat :: "nat \<Rightarrow> string" where
  "show_nat n = (if n < 10 then [digit_char n] else show_nat (n div 10) @ [digit_char n])"
  by pat_completeness auto
termination
  by (relation "measure id") auto

declare show_nat.simps [simp del]

text \<open>The format \<open>{n:0wd}\<close>: decimal, padded with zeros on the left to width \<open>w\<close>.\<close>

definition zero_pad :: "nat \<Rightarrow> nat \<Rightarrow> string" where
  "zero_pad w n = replicate (w - length (show_nat n)) (CHR ''0'') @ show_nat n"

text \<open>\<open>str.lower()\<close> on ASCII text.\<close>

definition lower_char :: "char \<Rightarrow> char" where
  "lower_char c =
     (if 65 \<le> (of_char c :: nat) \<and> (of_char c :: nat) \<le> 90
      then char_of ((of_char c :: nat) + 32) else c)"

definition lower :: "string \<Rightarrow> string" where
  "lower s = map lower_char s"

text \<open>\<open>sub in s\<close> on strings: \<open>sub\<close> occurs in \<open>s\<close> as a contiguous run.\<close>

fun str_contains :: "string \<Rightarrow> string \<Rightarrow> bool" where
  "str_contains sub [] = (sub = [])"
| "str_contains sub (c # cs) = (take (length sub) (c # cs) = sub \<or> str_contains sub cs)"

section \<open>token.py: the glyph token\<close>

datatype GlyphClass = ANCHOR | MUTATION | WARNING | AUDIT | CONSENT

fun GlyphClass_value :: "GlyphClass \<Rightarrow> string" where
  "GlyphClass_value ANCHOR = ''anchor''"
| "GlyphClass_value MUTATION = ''mutation''"
| "GlyphClass_value WARNING = ''warning''"
| "GlyphClass_value AUDIT = ''audit''"
| "GlyphClass_value CONSENT = ''consent''"

text \<open>\<open>GlyphClass(value)\<close>: the member with that value, \<open>ValueError\<close> when there is none.\<close>

definition GlyphClass_of :: "string \<Rightarrow> exn + GlyphClass" where
  "GlyphClass_of s =
     (if s = ''anchor'' then Inr ANCHOR
      else if s = ''mutation'' then Inr MUTATION
      else if s = ''warning'' then Inr WARNING
      else if s = ''audit'' then Inr AUDIT
      else if s = ''consent'' then Inr CONSENT
      else Inl ValueError)"

record GlyphVector =
  x :: real
  y :: real
  z :: real

text \<open>\<open>GlyphVector(x=.., y=.., z=..)\<close>: each axis is validated to lie in \<open>[-1, 1]\<close>.\<close>

definition GlyphVector_init :: "real \<Rightarrow> real \<Rightarrow> real \<Rightarrow> exn + GlyphVector" where
  "GlyphVector_init vx vy vz =
     (if - 1 \<le> vx \<and> vx \<le> 1 \<and> - 1 \<le> vy \<and> vy \<le> 1 \<and> - 1 \<le> vz \<and> vz \<le> 1
      then Inr \<lparr>x = vx, y = vy, z = vz\<rparr> else Inl ValidationError)"

text \<open>
  The token as it exists once its constructor has returned. \<open>expires_at\<close> is declared
  \<open>Optional[datetime]\<close>, but \<open>model_post_init\<close> fills it and nothing in the
  repository assigns \<open>None\<close> afterwards, so the constructed record carries the datetime
  and only the constructor's argument is optional.
\<close>

record GlyphToken =
  glyph_id :: string
  glyph_class :: GlyphClass
  vector :: GlyphVector
  intensity :: real
  source :: string
  owner :: string
  ttl_seconds :: int
  created_at :: datetime
  expires_at :: datetime
  explanation :: string
  parent_id :: "string option"

text \<open>
  The field constraints checked when a token is constructed or parsed (never on a later
  assignment): \<open>intensity\<close> in \<open>[0, 1]\<close>, \<open>ttl_seconds \<ge> 1\<close>, \<open>explanation\<close> of at most 200
  characters.
\<close>

definition fields_valid :: "real \<Rightarrow> int \<Rightarrow> string \<Rightarrow> bool" where
  "fields_valid i ttl ex = (0 \<le> i \<and> i \<le> 1 \<and> 1 \<le> ttl \<and> length ex \<le> 200)"

text \<open>
  \<open>GlyphToken(...)\<close>: field validation, then \<open>model_post_init\<close>, which derives the expiry
  from the creation time and the TTL only when no expiry was passed in. The argument
  \<open>created\<close> is the \<open>created_at\<close> keyword, or the clock when that keyword is absent.
\<close>

definition model_post_init :: "datetime \<Rightarrow> int \<Rightarrow> datetime option \<Rightarrow> exn + datetime" where
  "model_post_init created ttl expires =
     (case expires of
        None \<Rightarrow> add_seconds created ttl
      | Some e \<Rightarrow> Inr e)"

definition GlyphToken_init ::
  "string \<Rightarrow> GlyphClass \<Rightarrow> GlyphVector \<Rightarrow> real \<Rightarrow> string \<Rightarrow> string \<Rightarrow> int \<Rightarrow> datetime \<Rightarrow>
   datetime option \<Rightarrow> string \<Rightarrow> string option \<Rightarrow> exn + GlyphToken" where
  "GlyphToken_init gid cls vec i src own ttl created expires ex parent =
     (if \<not> fields_valid i ttl ex then Inl ValidationError
      else case model_post_init created ttl expires of
        Inl e \<Rightarrow> Inl e
      | Inr e \<Rightarrow> Inr \<lparr>glyph_id = gid, glyph_class = cls, vector = vec, intensity = i,
          source = src, owner = own, ttl_seconds = ttl, created_at = created,
          expires_at = e, explanation = ex, parent_id = parent\<rparr>)"

definition is_expired :: "datetime \<Rightarrow> GlyphToken \<Rightarrow> bool" where
  "is_expired now g = (now > expires_at g)"

text \<open>
  \<open>refresh\<close> mutates the token in place: the TTL is raised first, then the expiry is
  recomputed from the clock. When the sum overflows, the raise leaves the raised TTL behind
  with the old expiry.
\<close>

definition refresh :: "datetime \<Rightarrow> int \<Rightarrow> GlyphToken \<Rightarrow> GlyphToken \<times> exn option" where
  "refresh now additional_seconds g =
     (let g1 = g\<lparr>ttl_seconds := ttl_seconds g + additional_seconds\<rparr>
      in case add_seconds now (ttl_seconds g1) of
           Inl e \<Rightarrow> (g1, Some e)
         | Inr e \<Rightarrow> (g1\<lparr>expires_at := e\<rparr>, None))"

definition attenuate :: "real \<Rightarrow> GlyphToken \<Rightarrow> GlyphToken" where
  "attenuate factor g = g\<lparr>intensity := max 0 (intensity g * factor)\<rparr>"

section \<open>scroll.py: allowed transitions\<close>

datatype MutationType = ROTATE | ATTENUATE | AMPLIFY | TRANSFORM | REFRESH | DECAY

record ScrollTransition =
  from_glyph_id :: string
  to_glyph_id :: string
  mutation_type :: MutationType
  requires_consent :: bool
  max_intensity_delta :: real

record Scroll =
  scroll_id :: string
  scroll_name :: string
  sequence :: "string list"
  allowed_mutations :: "MutationType set"
  forbidden_mutations :: "MutationType set"
  transitions :: "ScrollTransition list"
  scroll_validator_id :: string
  scroll_max_active_glyphs :: int

definition is_mutation_allowed :: "Scroll \<Rightarrow> MutationType \<Rightarrow> bool" where
  "is_mutation_allowed s mutation =
     (if mutation \<in> forbidden_mutations s then False
      else mutation \<in> allowed_mutations s)"

text \<open>The loop of \<open>can_transition\<close>: it returns at the first transition that matches.\<close>

fun match_transition :: "ScrollTransition list \<Rightarrow> string \<Rightarrow> string \<Rightarrow> MutationType \<Rightarrow> bool" where
  "match_transition [] from_id to_id mutation = False"
| "match_transition (t # ts) from_id to_id mutation =
     (if from_glyph_id t = from_id \<and> to_glyph_id t = to_id \<and> mutation_type t = mutation
      then True
      else match_transition ts from_id to_id mutation)"

definition can_transition :: "Scroll \<Rightarrow> string \<Rightarrow> string \<Rightarrow> MutationType \<Rightarrow> bool" where
  "can_transition s from_id to_id mutation =
     (if \<not> is_mutation_allowed s mutation then False
      else if match_transition (transitions s) from_id to_id mutation then True
      else length (transitions s) = 0)"

definition GENESIS_SCROLL :: Scroll where
  "GENESIS_SCROLL = \<lparr>scroll_id = ''S-000'', scroll_name = ''Genesis Scroll'',
     sequence = [''G-000'', ''G-001''],
     allowed_mutations = {ROTATE, ATTENUATE, REFRESH, DECAY},
     forbidden_mutations = {AMPLIFY, TRANSFORM},
     transitions = [], scroll_validator_id = ''V-00'', scroll_max_active_glyphs = 50\<rparr>"

definition STANDARD_SCROLL :: Scroll where
  "STANDARD_SCROLL = \<lparr>scroll_id = ''S-001'', scroll_name = ''Standard Session Scroll'',
     sequence = [],
     allowed_mutations = {ROTATE, ATTENUATE, AMPLIFY, REFRESH, DECAY, TRANSFORM},
     forbidden_mutations = {},
     transitions = [], scroll_validator_id = ''V-01'', scroll_max_active_glyphs = 100\<rparr>"


section \<open>hashlib: SHA-256\<close>

text \<open>
  \<open>hashlib.sha256(data.encode()).hexdigest()\<close>, after FIPS 180-4: the message is padded
  to whole 512-bit blocks, each block is expanded to a schedule of 64 words and run
  through 64 rounds, and the eight state words are printed in lower-case hexadecimal. A
  \<open>string\<close> is the byte string that \<open>encode()\<close> returns. The round constants \<open>K256\<close>
  are the first 32 bits of the fractional parts of the cube roots of the first 64 primes,
  the initial state \<open>H256\<close> those of the square roots of the first 8 primes, written in
  decimal.
\<close>

definition K256 :: "32 word list" where
  "K256 = [1116352408, 1899447441, 3049323471, 3921009573, 961987163, 1508970993,
    2453635748, 2870763221, 3624381080, 310598401, 607225278, 1426881987,
    1925078388, 2162078206, 2614888103, 3248222580, 3835390401, 4022224774,
    264347078, 604807628, 770255983, 1249150122, 1555081692, 1996064986,
    2554220882, 2821834349, 2952996808, 3210313671, 3336571891, 3584528711,
    113926993, 338241895, 666307205, 773529912, 1294757372, 1396182291,
    1695183700, 1986661051, 2177026350, 2456956037, 2730485921, 2820302411,
    3259730800, 3345764771, 3516065817, 3600352804, 4094571909, 275423344,
    430227734, 506948616, 659060556, 883997877, 958139571, 1322822218,
    1537002063, 1747873779, 1955562222, 2024104815, 2227730452, 2361852424,
    2428436474, 2756734187, 3204031479, 3329325298]"

definition H256 :: "32 word list" where
  "H256 = [1779033703, 3144134277, 1013904242, 2773480762,
    1359893119, 2600822924, 528734635, 1541459225]"

definition rotr :: "nat \<Rightarrow> 32 word \<Rightarrow> 32 word" where
  "rotr n w = (drop_bit n w) OR (push_bit (32 - n) w)"

definition Ch :: "32 word \<Rightarrow> 32 word \<Rightarrow> 32 word \<Rightarrow> 32 word" where
  "Ch e f g = (e AND f) XOR (NOT e AND g)"

definition Maj :: "32 word \<Rightarrow> 32 word \<Rightarrow> 32 word \<Rightarrow> 32 word" where
  "Maj a b c = (a AND b) XOR (a AND c) XOR (b AND c)"

definition bsig0 :: "32 word \<Rightarrow> 32 word" where
  "bsig0 w = rotr 2 w XOR rotr 13 w XOR rotr 22 w"

definition bsig1 :: "32 word \<Rightarrow> 32 word" where
  "bsig1 w = rotr 6 w XOR rotr 11 w XOR rotr 25 w"

definition ssig0 :: "32 word \<Rightarrow> 32 word" where
  "ssig0 w = rotr 7 w XOR rotr 18 w XOR drop_bit 3 w"

definition ssig1 :: "32 word \<Rightarrow> 32 word" where
  "ssig1 w = rotr 17 w XOR rotr 19 w XOR drop_bit 10 w"

text \<open>
  Padding: the byte \<open>0x80\<close>, zero bytes up to 56 modulo 64, and the bit length of the
  message as eight big-endian bytes.
\<close>

definition sha_pad :: "nat list \<Rightarrow> nat list" where
  "sha_pad bs = bs @ [128] @ replicate ((119 - length bs mod 64) mod 64) 0
     @ map (\<lambda>i. unat (drop_bit (8 * (7 - i)) (of_nat (8 * length bs) :: 64 word) AND 255))
         [0..<8]"

fun be_words :: "nat list \<Rightarrow> 32 word list" where
  "be_words (b3 # b2 # b1 # b0 # bs) =
     (((of_nat b3 * 256 + of_nat b2) * 256 + of_nat b1) * 256 + of_nat b0) # be_words bs"
| "be_words _ = []"

fun sched :: "nat \<Rightarrow> 32 word list \<Rightarrow> 32 word list" where
  "sched 0 w = w"
| "sched (Suc n) w =
     (let t = length w
      in sched n (w @ [ssig1 (w ! (t - 2)) + w ! (t - 7) + ssig0 (w ! (t - 15)) + w ! (t - 16)]))"

fun sha_round :: "32 word list \<Rightarrow> 32 word \<times> 32 word \<Rightarrow> 32 word list" where
  "sha_round [a, b, c, d, e, f, g, h] (k, w) =
     (let t1 = h + bsig1 e + Ch e f g + k + w;
          t2 = bsig0 a + Maj a b c
      in [t1 + t2, a, b, c, d + t1, e, f, g])"
| "sha_round s _ = s"

definition sha_block :: "32 word list \<Rightarrow> 32 word list \<Rightarrow> 32 word list" where
  "sha_block hs ws = map2 (+) hs (foldl sha_round hs (zip K256 (sched 48 ws)))"

fun sha_blocks :: "nat \<Rightarrow> 32 word list \<Rightarrow> 32 word list \<Rightarrow> 32 word list" where
  "sha_blocks 0 hs ws = hs"
| "sha_blocks (Suc n) hs ws = sha_blocks n (sha_block hs (take 16 ws)) (drop 16 ws)"

definition hex_digit :: "nat \<Rightarrow> char" where
  "hex_digit n = ''0123456789abcdef'' ! (n mod 16)"

definition hex_word :: "32 word \<Rightarrow> string" where
  "hex_word w = map (\<lambda>i. hex_digit (unat (drop_bit (4 * (7 - i)) w AND 15))) [0..<8]"

definition sha256_hexdigest :: "string \<Rightarrow> string" where
  "sha256_hexdigest s =
     (let ws = be_words (sha_pad (map of_char s))
      in concat (map hex_word (sha_blocks (length ws div 16) H256 ws)))"

section \<open>validator.py: validators and the validation engine\<close>

datatype ValidationAction = ALLOW | HALT | REVERT | REQUEST_CONFIRMATION

record ValidatorResult =
  passed :: bool
  result_validator_id :: string
  check_name :: string
  message :: string
  action :: ValidationAction
  timestamp :: datetime

record ValidationCheck =
  name :: string
  description :: string
  is_critical :: bool

record Validator =
  validator_id :: string
  validator_name :: string
  checks :: "ValidationCheck list"
  on_fail :: ValidationAction
  version :: string
  checksum :: "string option"

text \<open>
  The string that \<open>compute_checksum\<close> hashes: the validator's id, its version and the
  number of its checks, then the name and the critical flag of each check, all joined by
  colons. A check's description is not part of it.
\<close>

definition checksum_data :: "Validator \<Rightarrow> string" where
  "checksum_data v =
     foldl (\<lambda>data c. data @ '':'' @ name c @ '':'' @ show_bool (is_critical c))
       (validator_id v @ '':'' @ version v @ '':'' @ show_nat (length (checks v)))
       (checks v)"

definition compute_checksum :: "Validator \<Rightarrow> string" where
  "compute_checksum v = take 16 (sha256_hexdigest (checksum_data v))"

definition verify_integrity :: "Validator \<Rightarrow> bool" where
  "verify_integrity v =
     (case checksum v of
        None \<Rightarrow> True
      | Some c \<Rightarrow> compute_checksum v = c)"

text \<open>
  The context dictionary of \<open>validate_transition\<close>. A field is \<open>None\<close> when its key is
  absent. Each history entry is the value that entry has under the key \<open>mutation\<close>.
\<close>

record validation_context =
  ctx_glyph :: "GlyphToken option"
  ctx_mutation :: "string option"
  ctx_source :: "string option"
  ctx_authenticated :: "bool option"
  ctx_history :: "string option list option"

definition fail_result :: "Validator \<Rightarrow> ValidationCheck \<Rightarrow> string \<Rightarrow> datetime \<Rightarrow> ValidatorResult" where
  "fail_result v c msg now =
     \<lparr>passed = False, result_validator_id = validator_id v, check_name = name c,
      message = msg, action = on_fail v, timestamp = now\<rparr>"

definition pass_result :: "Validator \<Rightarrow> ValidationCheck \<Rightarrow> datetime \<Rightarrow> ValidatorResult" where
  "pass_result v c now =
     \<lparr>passed = True, result_validator_id = validator_id v, check_name = name c,
      message = ''Check passed'', action = ALLOW, timestamp = now\<rparr>"

text \<open>
  \<open>_run_check\<close>: the check is chosen by its name; a name that matches no branch, and a
  branch whose condition does not hold, fall through to the passing result.
\<close>

definition run_check :: "datetime \<Rightarrow> ValidationCheck \<Rightarrow> validation_context \<Rightarrow> Validator \<Rightarrow> ValidatorResult" where
  "run_check now c ctx v =
     (let glyph = ctx_glyph ctx;
          src = (case ctx_source ctx of None \<Rightarrow> ''unknown'' | Some s \<Rightarrow> s);
          history = (case ctx_history ctx of None \<Rightarrow> [] | Some h \<Rightarrow> h)
      in
      if name c = ''no_identity_fixation'' then
        (case glyph of
           Some g \<Rightarrow>
             if str_contains ''identity'' (lower (explanation g))
             then fail_result v c ''Glyph explanation contains identity reference'' now
             else pass_result v c now
         | None \<Rightarrow> pass_result v c now)
      else if name c = ''ttl_required'' then
        (case glyph of
           Some g \<Rightarrow>
             if ttl_seconds g \<le> 0 then fail_result v c ''Glyph has no TTL'' now
             else pass_result v c now
         | None \<Rightarrow> pass_result v c now)
      else if name c = ''no_recursive_amplification'' then
        (if 3 \<le> length (filter (\<lambda>h. h = Some ''amplify'') history)
         then fail_result v c ''Recursive amplification detected'' now
         else pass_result v c now)
      else if name c = ''authentication_required'' then
        (if src = ''unknown'' \<or> \<not> (case ctx_authenticated ctx of None \<Rightarrow> False | Some a \<Rightarrow> a)
         then fail_result v c ''Unauthenticated mutation attempt'' now
         else pass_result v c now)
      else if name c = ''max_intensity'' then
        (case glyph of
           Some g \<Rightarrow>
             if intensity g > 1 then fail_result v c ''Intensity exceeds maximum'' now
             else pass_result v c now
         | None \<Rightarrow> pass_result v c now)
      else pass_result v c now)"

text \<open>
  The loop of \<open>validate_transition\<close>: each result is appended, and the loop breaks after
  a failing result of a critical check.
\<close>

fun run_checks :: "datetime \<Rightarrow> ValidationCheck list \<Rightarrow> validation_context \<Rightarrow> Validator \<Rightarrow> ValidatorResult list" where
  "run_checks now [] ctx v = []"
| "run_checks now (c # cs) ctx v =
     (let result = run_check now c ctx v
      in if \<not> passed result \<and> is_critical c then [result]
         else result # run_checks now cs ctx v)"

definition not_found_result :: "string \<Rightarrow> datetime \<Rightarrow> ValidatorResult" where
  "not_found_result vid now =
     \<lparr>passed = False, result_validator_id = vid, check_name = ''validator_exists'',
      message = ''Validator '' @ vid @ '' not found'', action = HALT, timestamp = now\<rparr>"

definition integrity_result :: "string \<Rightarrow> datetime \<Rightarrow> ValidatorResult" where
  "integrity_result vid now =
     \<lparr>passed = False, result_validator_id = vid, check_name = ''validator_integrity'',
      message = ''Validator '' @ vid @ '' failed integrity check'', action = HALT,
      timestamp = now\<rparr>"

text \<open>
  \<open>validate_transition\<close> over the registry \<open>validators\<close> (the dictionary of the
  \<open>ValidatorEngine\<close>).
\<close>

definition validate_transition ::
  "datetime \<Rightarrow> (string \<rightharpoonup> Validator) \<Rightarrow> string \<Rightarrow> validation_context \<Rightarrow> ValidatorResult list" where
  "validate_transition now validators vid ctx =
     (case validators vid of
        None \<Rightarrow> [not_found_result vid now]
      | Some v \<Rightarrow>
          if \<not> verify_integrity v then [integrity_result vid now]
          else run_checks now (checks v) ctx v)"

text \<open>The built-in validators, as \<open>_register_core_validators\<close> builds them.\<close>

definition V_00 :: Validator where
  "V_00 = \<lparr>validator_id = ''V-00'', validator_name = ''Genesis Validator'',
     checks = [
       \<lparr>name = ''no_identity_fixation'', description = ''Glyphs cannot represent identity'',
        is_critical = True\<rparr>,
       \<lparr>name = ''ttl_required'', description = ''All glyphs must have TTL'',
        is_critical = True\<rparr>],
     on_fail = HALT, version = ''1.0.0'', checksum = None\<rparr>"

definition V_01 :: Validator where
  "V_01 = \<lparr>validator_id = ''V-01'', validator_name = ''Standard Session Validator'',
     checks = [
       \<lparr>name = ''no_recursive_amplification'',
        description = ''Cannot amplify same glyph repeatedly'', is_critical = True\<rparr>,
       \<lparr>name = ''no_identity_fixation'', description = ''Glyphs cannot represent identity'',
        is_critical = True\<rparr>,
       \<lparr>name = ''ttl_required'', description = ''All glyphs must have TTL'',
        is_critical = True\<rparr>,
       \<lparr>name = ''max_intensity'', description = ''Intensity cannot exceed 1.0'',
        is_critical = False\<rparr>,
       \<lparr>name = ''authentication_required'',
        description = ''Mutations require authenticated source'', is_critical = True\<rparr>],
     on_fail = HALT, version = ''1.0.0'', checksum = None\<rparr>"

definition V_02 :: Validator where
  "V_02 = \<lparr>validator_id = ''V-02'', validator_name = ''Multi-Agent Validator'',
     checks = [
       \<lparr>name = ''no_ownership_conflict'',
        description = ''Cannot mutate glyph owned by another agent without consent'',
        is_critical = True\<rparr>,
       \<lparr>name = ''no_race_condition'',
        description = ''Check for concurrent modification attempts'', is_critical = True\<rparr>],
     on_fail = REQUEST_CONFIRMATION, version = ''1.0.0'', checksum = None\<rparr>"

text \<open>The last loop of \<open>_register_core_validators\<close> stores each validator's checksum.\<close>

definition with_checksum :: "Validator \<Rightarrow> Validator" where
  "with_checksum v = v\<lparr>checksum := Some (compute_checksum v)\<rparr>"

definition core_validators :: "string \<rightharpoonup> Validator" where
  "core_validators =
     [''V-00'' \<mapsto> with_checksum V_00, ''V-01'' \<mapsto> with_checksum V_01,
      ''V-02'' \<mapsto> with_checksum V_02]"

section \<open>Snapshots: \<open>model_dump()\<close>\<close>

text \<open>
  The values of a \<open>Dict[str, Any]\<close> snapshot. A dictionary is the list of its items in
  insertion order.
\<close>

datatype pyval =
    PNone
  | PBool bool
  | PInt int
  | PFloat real
  | PStr string
  | PTime datetime
  | PDict "(string \<times> pyval) list"

type_synonym pydict = "(string \<times> pyval) list"

fun ValidationAction_value :: "ValidationAction \<Rightarrow> string" where
  "ValidationAction_value ALLOW = ''allow''"
| "ValidationAction_value HALT = ''halt''"
| "ValidationAction_value REVERT = ''revert''"
| "ValidationAction_value REQUEST_CONFIRMATION = ''request_confirmation''"

definition GlyphToken_dump :: "GlyphToken \<Rightarrow> pydict" where
  "GlyphToken_dump g =
     [(''glyph_id'', PStr (glyph_id g)),
      (''glyph_class'', PStr (GlyphClass_value (glyph_class g))),
      (''vector'', PDict [(''x'', PFloat (x (vector g))), (''y'', PFloat (y (vector g))),
                          (''z'', PFloat (z (vector g)))]),
      (''intensity'', PFloat (intensity g)),
      (''source'', PStr (source g)),
      (''owner'', PStr (owner g)),
      (''ttl_seconds'', PInt (ttl_seconds g)),
      (''created_at'', PTime (created_at g)),
      (''expires_at'', PTime (expires_at g)),
      (''explanation'', PStr (explanation g)),
      (''parent_id'', (case parent_id g of None \<Rightarrow> PNone | Some p \<Rightarrow> PStr p))]"

definition ValidatorResult_dump :: "ValidatorResult \<Rightarrow> pydict" where
  "ValidatorResult_dump r =
     [(''passed'', PBool (passed r)),
      (''validator_id'', PStr (result_validator_id r)),
      (''check_name'', PStr (check_name r)),
      (''message'', PStr (message r)),
      (''action'', PStr (ValidationAction_value (action r))),
      (''timestamp'', PTime (timestamp r))]"

section \<open>audit.py: the append-only audit log\<close>

datatype AuditEventType =
  CREATED | MUTATED | DECAYED | EXPIRED | REJECTED | REFRESHED | FORGOTTEN | VALIDATED
  | VALIDATION_FAILED

fun AuditEventType_value :: "AuditEventType \<Rightarrow> string" where
  "AuditEventType_value CREATED = ''created''"
| "AuditEventType_value MUTATED = ''mutated''"
| "AuditEventType_value DECAYED = ''decayed''"
| "AuditEventType_value EXPIRED = ''expired''"
| "AuditEventType_value REJECTED = ''rejected''"
| "AuditEventType_value REFRESHED = ''refreshed''"
| "AuditEventType_value FORGOTTEN = ''forgotten''"
| "AuditEventType_value VALIDATED = ''validated''"
| "AuditEventType_value VALIDATION_FAILED = ''validation_failed''"

text \<open>
  The reason of an event is a string. The one reason the engine formats from a datetime,
  \<open>f"TTL expired at {glyph.expires_at}"\<close>, is kept as that datetime.
\<close>

datatype reason = Reason string | TTL_expired_at datetime

record AuditEvent =
  event_id :: string
  event_type :: AuditEventType
  event_glyph_id :: string
  event_timestamp :: datetime
  event_source :: string
  event_session_id :: "string option"
  event_reason :: reason
  before_state :: "pydict option"
  after_state :: "pydict option"
  event_validator_id :: "string option"
  validation_results :: "pydict list option"

text \<open>
  The log is its JSONL file, one event a line in the order of the appends, and the event
  counter of the process.
\<close>

record AuditLog =
  log_lines :: "AuditEvent list"
  event_counter :: nat

definition append_event :: "AuditEvent \<Rightarrow> AuditLog \<Rightarrow> AuditLog" where
  "append_event e l = l\<lparr>log_lines := log_lines l @ [e]\<rparr>"

definition create_event ::
  "datetime \<Rightarrow> AuditEventType \<Rightarrow> string \<Rightarrow> reason \<Rightarrow> string \<Rightarrow> string option \<Rightarrow>
   pydict option \<Rightarrow> pydict option \<Rightarrow> string option \<Rightarrow> pydict list option \<Rightarrow>
   AuditLog \<Rightarrow> AuditEvent \<times> AuditLog" where
  "create_event now ty gid rsn src sess before after vid results l =
     (let l1 = l\<lparr>event_counter := event_counter l + 1\<rparr>;
          e = \<lparr>event_id = ''A-'' @ zero_pad 6 (event_counter l1), event_type = ty,
               event_glyph_id = gid, event_timestamp = now, event_source = src,
               event_session_id = sess, event_reason = rsn, before_state = before,
               after_state = after, event_validator_id = vid, validation_results = results\<rparr>
      in (e, append_event e l1))"

definition read_all :: "AuditLog \<Rightarrow> AuditEvent list" where
  "read_all l = log_lines l"

definition query_by_glyph :: "AuditLog \<Rightarrow> string \<Rightarrow> AuditEvent list" where
  "query_by_glyph l gid = filter (\<lambda>e. event_glyph_id e = gid) (read_all l)"

text \<open>
  A timeline entry; its \<open>timestamp\<close> is the event's datetime, which the source renders
  with \<open>isoformat()\<close>.
\<close>

record timeline_entry =
  entry_event_id :: string
  entry_type :: string
  entry_timestamp :: datetime
  entry_reason :: reason
  entry_source :: string

record glyph_history =
  history_glyph_id :: string
  total_events :: nat
  creation_event :: "timeline_entry option"
  mutations :: "timeline_entry list"
  current_state :: "pydict option"
  timeline :: "timeline_entry list"

definition timeline_entry_of :: "AuditEvent \<Rightarrow> timeline_entry" where
  "timeline_entry_of e =
     \<lparr>entry_event_id = event_id e, entry_type = AuditEventType_value (event_type e),
      entry_timestamp = event_timestamp e, entry_reason = event_reason e,
      entry_source = event_source e\<rparr>"

text \<open>\<open>if event.after_state:\<close> holds for a dictionary that is present and not empty.\<close>

definition truthy :: "pydict option \<Rightarrow> bool" where
  "truthy d = (case d of None \<Rightarrow> False | Some items \<Rightarrow> items \<noteq> [])"

text \<open>One pass of the loop of \<open>reconstruct_glyph_history\<close>.\<close>

definition history_step :: "glyph_history \<Rightarrow> AuditEvent \<Rightarrow> glyph_history" where
  "history_step h e =
     (let entry = timeline_entry_of e;
          h1 = h\<lparr>timeline := timeline h @ [entry]\<rparr>;
          h2 = (if event_type e = CREATED then h1\<lparr>creation_event := Some entry\<rparr>
                else if event_type e = MUTATED then h1\<lparr>mutations := mutations h1 @ [entry]\<rparr>
                else h1)
      in if truthy (after_state e) then h2\<lparr>current_state := after_state e\<rparr> else h2)"

text \<open>
  \<open>sorted(events, key=lambda e: e.timestamp)\<close> is a stable sort, as \<open>sort_key\<close> is.
\<close>

definition reconstruct_glyph_history :: "AuditLog \<Rightarrow> string \<Rightarrow> glyph_history" where
  "reconstruct_glyph_history l gid =
     (let events = query_by_glyph l gid
      in foldl history_step
           \<lparr>history_glyph_id = gid, total_events = length events, creation_event = None,
            mutations = [], current_state = None, timeline = []\<rparr>
           (sort_key event_timestamp events))"

section \<open>store.py: the glyph store\<close>

text \<open>
  A call either returns a value or raises; the state it leaves behind comes with it.
\<close>

datatype 'a result = Return 'a | Raise exn

text \<open>
  The store keeps one JSON file for each glyph and a cache of token objects. The cache
  holds references: the engine mutates a loaded token in place, and the cache then shows
  the mutation whether or not the token is saved again. So the token objects live in an
  object store \<open>objects\<close>, addressed by references, and \<open>next_ref\<close> is the next free
  address. \<open>glyph_files\<close> is the directory \<open>glyphs/\<close>: the stem of each file with the
  token its JSON text holds, in the order \<open>glob\<close> lists them. The store is modelled with
  no transaction open, as the engine uses it.
\<close>

type_synonym ref = nat

record GlyphStore =
  glyph_files :: "(string \<times> GlyphToken) list"
  glyph_cache :: "string \<rightharpoonup> ref"
  objects :: "ref \<Rightarrow> GlyphToken"
  next_ref :: ref

text \<open>
  \<open>GlyphToken.model_validate_json\<close>: the field constraints are checked again when a file
  is parsed, those of the nested vector too.
\<close>

definition parse_glyph :: "GlyphToken \<Rightarrow> exn + GlyphToken" where
  "parse_glyph j =
     (if fields_valid (intensity j) (ttl_seconds j) (explanation j) \<and>
         GlyphVector_init (x (vector j)) (y (vector j)) (z (vector j)) = Inr (vector j)
      then Inr j else Inl ValidationError)"

definition new_object :: "GlyphToken \<Rightarrow> GlyphStore \<Rightarrow> ref \<times> GlyphStore" where
  "new_object g s =
     (next_ref s, s\<lparr>objects := (objects s)(next_ref s := g), next_ref := next_ref s + 1\<rparr>)"

definition save_glyph :: "ref \<Rightarrow> GlyphStore \<Rightarrow> GlyphStore" where
  "save_glyph r s =
     (let g = objects s r
      in s\<lparr>glyph_files := AList.update (glyph_id g) g (glyph_files s),
           glyph_cache := (glyph_cache s)(glyph_id g \<mapsto> r)\<rparr>)"

definition load_glyph :: "string \<Rightarrow> GlyphStore \<Rightarrow> ref option result \<times> GlyphStore" where
  "load_glyph gid s =
     (case glyph_cache s gid of
        Some r \<Rightarrow> (Return (Some r), s)
      | None \<Rightarrow>
          (case map_of (glyph_files s) gid of
             None \<Rightarrow> (Return None, s)
           | Some j \<Rightarrow>
               (case parse_glyph j of
                  Inl e \<Rightarrow> (Raise e, s)
                | Inr g \<Rightarrow>
                    (case new_object g s of
                       (r, s1) \<Rightarrow>
                         (Return (Some r), s1\<lparr>glyph_cache := (glyph_cache s1)(gid \<mapsto> r)\<rparr>)))))"

definition delete_glyph :: "string \<Rightarrow> GlyphStore \<Rightarrow> bool \<times> GlyphStore" where
  "delete_glyph gid s =
     (if map_of (glyph_files s) gid = None then (False, s)
      else (True, s\<lparr>glyph_files := AList.delete gid (glyph_files s),
                    glyph_cache := (glyph_cache s)(gid := None)\<rparr>))"

definition list_glyphs :: "GlyphStore \<Rightarrow> string list" where
  "list_glyphs s = map fst (glyph_files s)"

text \<open>
  The loop of \<open>get_all_glyphs\<close>: each listed glyph is loaded and entered in the
  dictionary under its id.
\<close>

fun load_all ::
  "string list \<Rightarrow> (string \<times> ref) list \<Rightarrow> GlyphStore \<Rightarrow> (string \<times> ref) list result \<times> GlyphStore" where
  "load_all [] glyphs s = (Return glyphs, s)"
| "load_all (gid # gids) glyphs s =
     (case load_glyph gid s of
        (Raise e, s1) \<Rightarrow> (Raise e, s1)
      | (Return None, s1) \<Rightarrow> load_all gids glyphs s1
      | (Return (Some r), s1) \<Rightarrow> load_all gids (AList.update gid r glyphs) s1)"

definition get_all_glyphs :: "GlyphStore \<Rightarrow> (string \<times> ref) list result \<times> GlyphStore" where
  "get_all_glyphs s = load_all (list_glyphs s) [] s"

definition get_active_glyphs ::
  "datetime \<Rightarrow> GlyphStore \<Rightarrow> (string \<times> ref) list result \<times> GlyphStore" where
  "get_active_glyphs now s =
     (case get_all_glyphs s of
        (Raise e, s1) \<Rightarrow> (Raise e, s1)
      | (Return glyphs, s1) \<Rightarrow>
          (Return (filter (\<lambda>(gid, r). \<not> is_expired now (objects s1 r)) glyphs), s1))"

definition get_expired_glyphs ::
  "datetime \<Rightarrow> GlyphStore \<Rightarrow> (string \<times> ref) list result \<times> GlyphStore" where
  "get_expired_glyphs now s =
     (case get_all_glyphs s of
        (Raise e, s1) \<Rightarrow> (Raise e, s1)
      | (Return glyphs, s1) \<Rightarrow>
          (Return (filter (\<lambda>(gid, r). is_expired now (objects s1 r)) glyphs), s1))"

section \<open>input.py: typed input\<close>

datatype InputType = FACT | STATE | COMMAND

datatype CommandVerb =
  REMEMBER | FORGET | REFRAME | AUDIT_VERB | REFRESH_VERB | ATTENUATE_VERB

text \<open>
  The payload dictionary, as the keys the engine reads with the types the token model
  accepts for them; a field is \<open>None\<close> when its key is absent.
\<close>

record payload =
  p_class :: "string option"
  p_urgency :: "real option"
  p_complexity :: "real option"
  p_alignment :: "real option"
  p_intensity :: "real option"
  p_owner :: "string option"
  p_ttl :: "int option"
  p_explanation :: "string option"
  p_parent_id :: "string option"

record InputMessage =
  input_type :: InputType
  msg_payload :: payload
  msg_source :: string
  msg_timestamp :: datetime
  command_verb :: "CommandVerb option"
  target_glyph_id :: "string option"
  auth_token :: "string option"
  msg_session_id :: "string option"

definition is_authenticated :: "InputMessage \<Rightarrow> bool" where
  "is_authenticated msg = (auth_token msg \<noteq> None \<or> msg_source msg = ''system'')"

section \<open>engine.py: the orchestrator\<close>

record EngineConfig =
  max_active_glyphs :: int
  default_ttl_seconds :: int
  enable_fast_path :: bool
  require_auth :: bool

text \<open>
  The response. \<open>text_output\<close> holds the token whose \<open>to_text()\<close> rendering the response
  carries.
\<close>

record EngineResponse =
  success :: bool
  response_message :: string
  response_glyph_id :: "string option"
  response_validation_results :: "pydict list option"
  text_output :: "GlyphToken option"
  response_timestamp :: datetime

record GlyphEngine =
  config :: EngineConfig
  store :: GlyphStore
  audit :: AuditLog
  validators :: "string \<rightharpoonup> Validator"
  scrolls :: "string \<rightharpoonup> Scroll"
  session_id :: string
  glyph_counter :: nat

definition failure_response :: "datetime \<Rightarrow> string \<Rightarrow> pydict list option \<Rightarrow> EngineResponse" where
  "failure_response now msg results =
     \<lparr>success = False, response_message = msg, response_glyph_id = None,
      response_validation_results = results, text_output = None, response_timestamp = now\<rparr>"

definition get_scroll :: "GlyphEngine \<Rightarrow> string \<Rightarrow> Scroll" where
  "get_scroll e sid = (case scrolls e sid of None \<Rightarrow> STANDARD_SCROLL | Some s \<Rightarrow> s)"

definition check_accretion :: "datetime \<Rightarrow> GlyphEngine \<Rightarrow> bool result \<times> GlyphEngine" where
  "check_accretion now e =
     (case get_active_glyphs now (store e) of
        (Raise err, s1) \<Rightarrow> (Raise err, e\<lparr>store := s1\<rparr>)
      | (Return active, s1) \<Rightarrow>
          (Return (int (length active) < max_active_glyphs (config e)), e\<lparr>store := s1\<rparr>))"

text \<open>
  The loop of \<open>_run_decay_cycle\<close> over the expired glyphs: each is deleted and audited as
  expired.
\<close>

fun decay_loop :: "datetime \<Rightarrow> (string \<times> ref) list \<Rightarrow> GlyphEngine \<Rightarrow> string list \<times> GlyphEngine" where
  "decay_loop now [] e = ([], e)"
| "decay_loop now ((gid, r) # expired) e =
     (let g = objects (store e) r;
          s1 = snd (delete_glyph gid (store e));
          a1 = snd (create_event now EXPIRED gid (TTL_expired_at (expires_at g)) ''system''
                 (Some (session_id e)) (Some (GlyphToken_dump g)) None None None (audit e))
      in case decay_loop now expired (e\<lparr>store := s1, audit := a1\<rparr>) of
           (removed, e1) \<Rightarrow> (gid # removed, e1))"

definition run_decay_cycle :: "datetime \<Rightarrow> GlyphEngine \<Rightarrow> string list result \<times> GlyphEngine" where
  "run_decay_cycle now e =
     (case get_expired_glyphs now (store e) of
        (Raise err, s1) \<Rightarrow> (Raise err, e\<lparr>store := s1\<rparr>)
      | (Return expired, s1) \<Rightarrow>
          (case decay_loop now expired (e\<lparr>store := s1\<rparr>) of
             (removed, e1) \<Rightarrow> (Return removed, e1)))"

text \<open>
  The token that \<open>_handle_state\<close> builds from the payload: the class, the vector and the
  token are constructed in this order, and each constructor can raise.
\<close>

definition build_glyph :: "InputMessage \<Rightarrow> string \<Rightarrow> datetime \<Rightarrow> EngineConfig \<Rightarrow> exn + GlyphToken" where
  "build_glyph msg gid now cfg =
     (let p = msg_payload msg
      in case GlyphClass_of (case p_class p of None \<Rightarrow> ''anchor'' | Some c \<Rightarrow> c) of
           Inl e \<Rightarrow> Inl e
         | Inr cls \<Rightarrow>
             (case GlyphVector_init
                     (case p_urgency p of None \<Rightarrow> 0 | Some v \<Rightarrow> v)
                     (case p_complexity p of None \<Rightarrow> 0 | Some v \<Rightarrow> v)
                     (case p_alignment p of None \<Rightarrow> 1 / 2 | Some v \<Rightarrow> v) of
                Inl e \<Rightarrow> Inl e
              | Inr vec \<Rightarrow>
                  GlyphToken_init gid cls vec
                    (case p_intensity p of None \<Rightarrow> 1 / 2 | Some v \<Rightarrow> v)
                    (msg_source msg)
                    (case p_owner p of None \<Rightarrow> ''paul'' | Some v \<Rightarrow> v)
                    (case p_ttl p of None \<Rightarrow> default_ttl_seconds cfg | Some v \<Rightarrow> v)
                    now None
                    (case p_explanation p of None \<Rightarrow> ''User-declared state'' | Some v \<Rightarrow> v)
                    (p_parent_id p)))"

definition state_context :: "InputMessage \<Rightarrow> GlyphToken \<Rightarrow> validation_context" where
  "state_context msg g =
     \<lparr>ctx_glyph = Some g, ctx_mutation = None, ctx_source = Some (msg_source msg),
      ctx_authenticated = Some (is_authenticated msg), ctx_history = Some []\<rparr>"

text \<open>
  \<open>_handle_state\<close> at clock time \<open>now\<close>: the decay sweep, the accretion check, the new id,
  the token, its validation against V-01, and then either the audit of the failure or the
  save and the audit of the creation.
\<close>

definition handle_state ::
  "InputMessage \<Rightarrow> datetime \<Rightarrow> GlyphEngine \<Rightarrow> EngineResponse result \<times> GlyphEngine" where
  "handle_state msg now e =
     (case run_decay_cycle now e of
        (Raise err, e1) \<Rightarrow> (Raise err, e1)
      | (Return removed, e1) \<Rightarrow>
          (case check_accretion now e1 of
             (Raise err, e2) \<Rightarrow> (Raise err, e2)
           | (Return ok, e2) \<Rightarrow>
               if \<not> ok then
                 (Return (failure_response now
                    ''Glyph limit reached. Run consolidation or wait for decay.'' None), e2)
               else
                 (let e3 = e2\<lparr>glyph_counter := glyph_counter e2 + 1\<rparr>;
                      gid = ''G-'' @ zero_pad 3 (glyph_counter e3)
                  in case build_glyph msg gid now (config e3) of
                       Inl err \<Rightarrow> (Raise err, e3)
                     | Inr glyph \<Rightarrow>
                         (let results = validate_transition now (validators e3) ''V-01''
                                          (state_context msg glyph);
                              failed = filter (\<lambda>r. \<not> passed r) results
                          in if failed \<noteq> [] then
                               (let a = snd (create_event now VALIDATION_FAILED gid
                                          (Reason (message (hd failed))) (msg_source msg)
                                          (Some (session_id e3)) None None None
                                          (Some (map ValidatorResult_dump results)) (audit e3))
                                in (Return (failure_response now
                                      (''Validation failed: '' @ message (hd failed))
                                      (Some (map ValidatorResult_dump results))),
                                    e3\<lparr>audit := a\<rparr>))
                             else
                               (case new_object glyph (store e3) of
                                  (r, s1) \<Rightarrow>
                                    (let s2 = save_glyph r s1;
                                         a = snd (create_event now CREATED gid
                                               (Reason ''State glyph created'') (msg_source msg)
                                               (Some (session_id e3)) None
                                               (Some (GlyphToken_dump glyph)) None None (audit e3))
                                     in (Return \<lparr>success = True,
                                           response_message = ''State recorded: '' @ gid,
                                           response_glyph_id = Some gid,
                                           response_validation_results = None,
                                           text_output = Some glyph,
                                           response_timestamp = now\<rparr>,
                                         e3\<lparr>store := s2, audit := a\<rparr>)))))))"

text \<open>\<open>_cmd_remember\<close>: a state request whose TTL defaults to seven days.\<close>

definition cmd_remember ::
  "InputMessage \<Rightarrow> datetime \<Rightarrow> GlyphEngine \<Rightarrow> EngineResponse result \<times> GlyphEngine" where
  "cmd_remember msg now e =
     handle_state
       (msg\<lparr>msg_payload := (msg_payload msg)\<lparr>p_ttl :=
          Some (case p_ttl (msg_payload msg) of None \<Rightarrow> 604800 | Some t \<Rightarrow> t)\<rparr>\<rparr>) now e"

text \<open>
  The field overrides of \<open>_cmd_reframe\<close>. The class is converted first, so a class name
  that is no member raises before any field has been assigned.
\<close>

definition apply_reframe :: "payload \<Rightarrow> GlyphToken \<Rightarrow> exn + GlyphToken" where
  "apply_reframe p g =
     (case (case p_class p of
              None \<Rightarrow> Inr g
            | Some c \<Rightarrow>
                (case GlyphClass_of c of
                   Inl e \<Rightarrow> Inl e
                 | Inr cls \<Rightarrow> Inr (g\<lparr>glyph_class := cls\<rparr>))) of
        Inl e \<Rightarrow> Inl e
      | Inr g1 \<Rightarrow>
          (let g2 = (case p_explanation p of None \<Rightarrow> g1 | Some ex \<Rightarrow> g1\<lparr>explanation := ex\<rparr>);
               g3 = (case p_intensity p of None \<Rightarrow> g2 | Some i \<Rightarrow> g2\<lparr>intensity := i\<rparr>)
           in Inr g3))"

text \<open>
  \<open>_cmd_reframe\<close>: the token object that \<open>load_glyph\<close> returns is the one the cache
  holds, and the overrides are assigned to it before the scroll is asked. A target of
  \<open>None\<close> names no file and no cache entry.
\<close>

definition cmd_reframe ::
  "InputMessage \<Rightarrow> datetime \<Rightarrow> GlyphEngine \<Rightarrow> EngineResponse result \<times> GlyphEngine" where
  "cmd_reframe msg now e =
     (case target_glyph_id msg of
        None \<Rightarrow> (Return (failure_response now ''Glyph not found: None'' None), e)
      | Some gid \<Rightarrow>
          (case load_glyph gid (store e) of
             (Raise err, s1) \<Rightarrow> (Raise err, e\<lparr>store := s1\<rparr>)
           | (Return None, s1) \<Rightarrow>
               (Return (failure_response now (''Glyph not found: '' @ gid) None), e\<lparr>store := s1\<rparr>)
           | (Return (Some r), s1) \<Rightarrow>
               (let before = GlyphToken_dump (objects s1 r)
                in case apply_reframe (msg_payload msg) (objects s1 r) of
                     Inl err \<Rightarrow> (Raise err, e\<lparr>store := s1\<rparr>)
                   | Inr g \<Rightarrow>
                       (let s2 = s1\<lparr>objects := (objects s1)(r := g)\<rparr>
                        in if \<not> is_mutation_allowed (get_scroll e ''S-001'') TRANSFORM then
                             (Return (failure_response now
                                ''Transform not allowed in current scroll'' None),
                              e\<lparr>store := s2\<rparr>)
                           else
                             (let s3 = save_glyph r s2;
                                  a = snd (create_event now MUTATED gid (Reason ''Reframe command'')
                                        (msg_source msg) (Some (session_id e))
                                        (Some before) (Some (GlyphToken_dump g)) None None
                                        (audit e))
                              in (Return \<lparr>success = True,
                                    response_message = ''Reframed: '' @ gid,
                                    response_glyph_id = Some gid,
                                    response_validation_results = None,
                                    text_output = Some g,
                                    response_timestamp = now\<rparr>,
                                  e\<lparr>store := s3, audit := a\<rparr>))))))"

text \<open>
  Names for the stages of one \<open>_handle_state\<close> call at clock time \<open>now\<close>: the engine as
  the decay sweep and then the accretion check leave it, the number of active glyphs
  that the accretion check counts (when the sweep and the count return), the id that
  \<open>_generate_glyph_id\<close> gives the new glyph, and the results of its validation.
\<close>

definition after_decay :: "datetime \<Rightarrow> GlyphEngine \<Rightarrow> GlyphEngine" where
  "after_decay now e = snd (run_decay_cycle now e)"

definition after_accretion :: "datetime \<Rightarrow> GlyphEngine \<Rightarrow> GlyphEngine" where
  "after_accretion now e = snd (check_accretion now (after_decay now e))"

definition active_count :: "datetime \<Rightarrow> GlyphEngine \<Rightarrow> nat option" where
  "active_count now e =
     (case fst (run_decay_cycle now e) of
        Raise err \<Rightarrow> None
      | Return removed \<Rightarrow>
          (case fst (get_active_glyphs now (store (after_decay now e))) of
             Raise err \<Rightarrow> None
           | Return active \<Rightarrow> Some (length active)))"

definition next_glyph_id :: "GlyphEngine \<Rightarrow> string" where
  "next_glyph_id e = ''G-'' @ zero_pad 3 (glyph_counter e + 1)"

definition state_results :: "InputMessage \<Rightarrow> datetime \<Rightarrow> GlyphEngine \<Rightarrow> GlyphToken \<Rightarrow> ValidatorResult list" where
  "state_results msg now e g =
     validate_transition now (validators e) ''V-01'' (state_context msg g)"
section \<open>Example values\<close>

text \<open>
  A token used in the examples: created at microsecond 0 with a TTL of ten seconds and no
  explicit expiry.
\<close>

definition example_token :: GlyphToken where
  "example_token = \<lparr>glyph_id = ''G-001'', glyph_class = ANCHOR,
     vector = \<lparr>x = 0, y = 0, z = 1 / 2\<rparr>, intensity = 1 / 2, source = ''user'',
     owner = ''paul'', ttl_seconds = 10, created_at = 0, expires_at = 10000000,
     explanation = ''User-declared state'', parent_id = None\<rparr>"

definition example_transition :: ScrollTransition where
  "example_transition = \<lparr>from_glyph_id = ''G-000'', to_glyph_id = ''G-001'',
     mutation_type = ROTATE, requires_consent = False, max_intensity_delta = 1 / 2\<rparr>"




text \<open>
  A validator whose first check is not critical, and the context of an unauthenticated
  request for a token whose intensity was assigned the value 2.
\<close>

definition example_validator :: Validator where
  "example_validator = \<lparr>validator_id = ''V-09'', validator_name = ''Example'',
     checks = [
       \<lparr>name = ''max_intensity'', description = ''Intensity cannot exceed 1.0'',
        is_critical = False\<rparr>,
       \<lparr>name = ''authentication_required'',
        description = ''Mutations require authenticated source'', is_critical = True\<rparr>,
       \<lparr>name = ''ttl_required'', description = ''All glyphs must have TTL'',
        is_critical = True\<rparr>],
     on_fail = HALT, version = ''1.0.0'', checksum = None\<rparr>"

definition unauthenticated_context :: validation_context where
  "unauthenticated_context = \<lparr>ctx_glyph = Some (example_token\<lparr>intensity := 2\<rparr>),
     ctx_mutation = None, ctx_source = Some ''user'', ctx_authenticated = Some False,
     ctx_history = Some []\<rparr>"

text \<open>
  Audit events of the token G-001: its creation, two mutations and its deletion, and an
  event of another token.
\<close>

definition example_event :: "AuditEventType \<Rightarrow> string \<Rightarrow> datetime \<Rightarrow> pydict option \<Rightarrow> AuditEvent" where
  "example_event ty gid t after =
     \<lparr>event_id = ''A-000001'', event_type = ty, event_glyph_id = gid, event_timestamp = t,
      event_source = ''user'', event_session_id = None, event_reason = Reason ''example'',
      before_state = None, after_state = after, event_validator_id = None,
      validation_results = None\<rparr>"

definition state_0 :: pydict where
  "state_0 = GlyphToken_dump example_token"

definition state_1 :: pydict where
  "state_1 = GlyphToken_dump (attenuate (1 / 2) example_token)"

definition state_2 :: pydict where
  "state_2 = GlyphToken_dump (attenuate (1 / 2) (attenuate (1 / 2) example_token))"

definition example_log :: AuditLog where
  "example_log = \<lparr>log_lines =
     [example_event CREATED ''G-001'' 1 (Some state_0),
      example_event CREATED ''G-002'' 2 (Some state_0),
      example_event MUTATED ''G-001'' 3 (Some state_1),
      example_event MUTATED ''G-001'' 4 (Some state_2),
      example_event MUTATED ''G-002'' 5 (Some state_1),
      example_event FORGOTTEN ''G-001'' 6 None],
     event_counter = 6\<rparr>"

text \<open>The same history with a deletion event that carries an after-state.\<close>

definition forged_log :: AuditLog where
  "forged_log = \<lparr>log_lines =
     [example_event CREATED ''G-001'' 1 (Some state_0),
      example_event MUTATED ''G-001'' 3 (Some state_1),
      example_event MUTATED ''G-001'' 4 (Some state_2),
      example_event FORGOTTEN ''G-001'' 6 (Some state_0)],
     event_counter = 4\<rparr>"

text \<open>The same history recorded while the clock stepped back before the second mutation.\<close>

definition clock_step_log :: AuditLog where
  "clock_step_log = \<lparr>log_lines =
     [example_event CREATED ''G-001'' 1 (Some state_0),
      example_event MUTATED ''G-001'' 4 (Some state_1),
      example_event MUTATED ''G-001'' 3 (Some state_2),
      example_event FORGOTTEN ''G-001'' 6 None],
     event_counter = 4\<rparr>"


text \<open>
  An engine whose vault holds two glyphs, created at time 0: G-000 with a TTL of 100
  seconds and G-001 with a TTL of 10 seconds. Nothing is cached yet, the ceiling is two
  active glyphs, and one glyph id has been handed out.
\<close>

definition token_A :: GlyphToken where
  "token_A = \<lparr>glyph_id = ''G-000'', glyph_class = ANCHOR,
     vector = \<lparr>x = 0, y = 0, z = 1\<rparr>, intensity = 1, source = ''system'',
     owner = ''paul'', ttl_seconds = 100, created_at = 0, expires_at = 100000000,
     explanation = ''Genesis anchor'', parent_id = None\<rparr>"

definition example_store :: GlyphStore where
  "example_store = \<lparr>glyph_files = [(''G-000'', token_A), (''G-001'', example_token)],
     glyph_cache = Map.empty, objects = (\<lambda>r. token_A), next_ref = 0\<rparr>"

definition example_engine :: GlyphEngine where
  "example_engine = \<lparr>
     config = \<lparr>max_active_glyphs = 2, default_ttl_seconds = 86400, enable_fast_path = True,
       require_auth = False\<rparr>,
     store = example_store,
     audit = \<lparr>log_lines = [], event_counter = 0\<rparr>,
     validators = core_validators,
     scrolls = [''S-000'' \<mapsto> GENESIS_SCROLL, ''S-001'' \<mapsto> STANDARD_SCROLL],
     session_id = ''a1b2c3d4'',
     glyph_counter = 1\<rparr>"

text \<open>
  A state request with an authentication token, and the same request without one, as the
  repository's accretion test sends it.
\<close>

definition example_request :: InputMessage where
  "example_request = \<lparr>input_type = STATE,
     msg_payload = \<lparr>p_class = Some ''anchor'', p_urgency = None, p_complexity = None,
       p_alignment = None, p_intensity = None, p_owner = None, p_ttl = None,
       p_explanation = Some ''Glyph 0'', p_parent_id = None\<rparr>,
     msg_source = ''user'', msg_timestamp = 0, command_verb = None, target_glyph_id = None,
     auth_token = Some ''test-token'', msg_session_id = None\<rparr>"

definition unauthenticated_request :: InputMessage where
  "unauthenticated_request = example_request\<lparr>auth_token := None\<rparr>"

text \<open>The token that a state request builds at second 5 and at second 20.\<close>

definition new_token :: "datetime \<Rightarrow> GlyphToken" where
  "new_token created = \<lparr>glyph_id = ''G-002'', glyph_class = ANCHOR,
     vector = \<lparr>x = 0, y = 0, z = 1 / 2\<rparr>, intensity = 1 / 2, source = ''user'',
     owner = ''paul'', ttl_seconds = 86400, created_at = created,
     expires_at = created + 86400000000, explanation = ''Glyph 0'', parent_id = None\<rparr>"

text \<open>The store after a request at second 5 has loaded both glyphs into the cache.\<close>

definition loaded_store :: GlyphStore where
  "loaded_store = \<lparr>glyph_files = [(''G-000'', token_A), (''G-001'', example_token)],
     glyph_cache = [''G-000'' \<mapsto> 0, ''G-001'' \<mapsto> 1],
     objects = (\<lambda>r. token_A)(0 := token_A, 1 := example_token), next_ref = 2\<rparr>"

text \<open>The store after the sweep at second 20 has deleted G-001.\<close>

definition swept_store :: GlyphStore where
  "swept_store = \<lparr>glyph_files = [(''G-000'', token_A)],
     glyph_cache = [''G-000'' \<mapsto> 0],
     objects = (\<lambda>r. token_A)(0 := token_A, 1 := example_token), next_ref = 2\<rparr>"

definition loaded_engine :: GlyphEngine where
  "loaded_engine = example_engine\<lparr>store := loaded_store\<rparr>"

text \<open>The same engine with a ceiling of one active glyph.\<close>

definition crowded_engine :: GlyphEngine where
  "crowded_engine = example_engine\<lparr>config := (config example_engine)\<lparr>max_active_glyphs := 1\<rparr>\<rparr>"

text \<open>
  An engine whose scroll S-001 forbids the transform kind, a reframe command for G-001
  that overrides class, explanation and intensity, and the store as the rejected command
  leaves it: the glyph file as before, the token object in the cache overridden.
\<close>

definition reframe_engine :: GlyphEngine where
  "reframe_engine = example_engine\<lparr>scrolls :=
     [''S-001'' \<mapsto> STANDARD_SCROLL\<lparr>forbidden_mutations := {TRANSFORM}\<rparr>]\<rparr>"

definition reframe_request :: InputMessage where
  "reframe_request = \<lparr>input_type = COMMAND,
     msg_payload = \<lparr>p_class = Some ''warning'', p_urgency = None, p_complexity = None,
       p_alignment = None, p_intensity = Some 5, p_owner = None, p_ttl = None,
       p_explanation = Some ''reframed'', p_parent_id = None\<rparr>,
     msg_source = ''user'', msg_timestamp = 0, command_verb = Some REFRAME,
     target_glyph_id = Some ''G-001'', auth_token = Some ''test-token'',
     msg_session_id = None\<rparr>"

definition reframed_store :: GlyphStore where
  "reframed_store = \<lparr>glyph_files = [(''G-000'', token_A), (''G-001'', example_token)],
     glyph_cache = [''G-001'' \<mapsto> 0],
     objects = (\<lambda>r. token_A)(0 := example_token\<lparr>glyph_class := WARNING,
       explanation := ''reframed'', intensity := 5\<rparr>),
     next_ref = 1\<rparr>"

text \<open>
  An engine whose validator V-01 has a first check that is not critical, and a state
  request whose explanation fails that check.
\<close>

definition lenient_V_01 :: Validator where
  "lenient_V_01 = \<lparr>validator_id = ''V-01'', validator_name = ''Lenient Session Validator'',
     checks = [
       \<lparr>name = ''no_identity_fixation'', description = ''Glyphs cannot represent identity'',
        is_critical = False\<rparr>,
       \<lparr>name = ''ttl_required'', description = ''All glyphs must have TTL'',
        is_critical = True\<rparr>],
     on_fail = HALT, version = ''1.0.0'', checksum = None\<rparr>"

definition lenient_engine :: GlyphEngine where
  "lenient_engine = example_engine\<lparr>
     config := (config example_engine)\<lparr>max_active_glyphs := 5\<rparr>,
     validators := [''V-01'' \<mapsto> with_checksum lenient_V_01]\<rparr>"



text \<open>The five results of V-01 for the example request, with and without its token.\<close>

definition passing :: "string \<Rightarrow> datetime \<Rightarrow> ValidatorResult" where
  "passing check now = \<lparr>passed = True, result_validator_id = ''V-01'', check_name = check,
     message = ''Check passed'', action = ALLOW, timestamp = now\<rparr>"

definition unauthenticated_results :: "datetime \<Rightarrow> ValidatorResult list" where
  "unauthenticated_results now =
     [passing ''no_recursive_amplification'' now, passing ''no_identity_fixation'' now,
      passing ''ttl_required'' now, passing ''max_intensity'' now,
      \<lparr>passed = False, result_validator_id = ''V-01'',
       check_name = ''authentication_required'',
       message = ''Unauthenticated mutation attempt'', action = HALT, timestamp = now\<rparr>]"


section \<open>Properties of the token\<close>

lemma add_seconds_Inr:
  "add_seconds dt n = Inr e \<Longrightarrow> e = dt + n * 1000000"
  by (auto simp: add_seconds_def split: if_splits)

lemma example_token_constructed:
  "GlyphToken_init ''G-001'' ANCHOR \<lparr>x = 0, y = 0, z = 1 / 2\<rparr> (1 / 2) ''user'' ''paul'' 10 0 None
     ''User-declared state'' None = Inr example_token"
  by (simp add: GlyphToken_init_def fields_valid_def model_post_init_def add_seconds_def
      datetime_max_def example_token_def)

text \<open>
  Claim C1, as stated: the expiry equals the creation time plus the TTL at construction
  and after every \<open>refresh\<close>. It fails after a refresh: \<open>refresh\<close> recomputes the expiry
  from the clock, not from \<open>created_at\<close>. The token created at time 0 with TTL 10 s and
  refreshed by 5 s at second 3 has TTL 15 s and expires at second 18, not 15.
\<close>

theorem C1_refresh_counterexample:
  "fst (refresh 3000000 5 example_token) =
     example_token\<lparr>ttl_seconds := 15, expires_at := 18000000\<rparr> \<and>
   snd (refresh 3000000 5 example_token) = None \<and>
   expires_at (fst (refresh 3000000 5 example_token)) \<noteq>
     created_at (fst (refresh 3000000 5 example_token))
       + ttl_seconds (fst (refresh 3000000 5 example_token)) * 1000000"
  by (simp add: refresh_def add_seconds_def datetime_max_def example_token_def)

text \<open>
  Claim C1, amended: a token constructed without an explicit expiry has
  \<open>expires_at = created_at + ttl_seconds\<close>; a \<open>refresh(extra)\<close> that returns at clock time
  \<open>now\<close> adds \<open>extra\<close> to the TTL and sets \<open>expires_at = now + ttl_seconds\<close> (the new TTL),
  so the equation with \<open>created_at\<close> holds afterwards exactly when \<open>now = created_at\<close>.
  Times are in microseconds, the TTL in seconds.
\<close>

theorem C1_expiry_amended:
  "(GlyphToken_init gid cls vec i src own ttl created None ex parent = Inr g \<longrightarrow>
      created_at g = created \<and> ttl_seconds g = ttl \<and>
      expires_at g = created_at g + ttl_seconds g * 1000000) \<and>
   (refresh now extra t = (t', None) \<longrightarrow>
      ttl_seconds t' = ttl_seconds t + extra \<and>
      created_at t' = created_at t \<and>
      expires_at t' = now + ttl_seconds t' * 1000000 \<and>
      (expires_at t' = created_at t' + ttl_seconds t' * 1000000 \<longleftrightarrow> now = created_at t))"
proof (intro conjI impI)
  assume c: "GlyphToken_init gid cls vec i src own ttl created None ex parent = Inr g"
  then obtain e where e: "add_seconds created ttl = Inr e"
    and g: "g = \<lparr>glyph_id = gid, glyph_class = cls, vector = vec, intensity = i,
          source = src, owner = own, ttl_seconds = ttl, created_at = created,
          expires_at = e, explanation = ex, parent_id = parent\<rparr>"
    by (auto simp: GlyphToken_init_def model_post_init_def split: if_splits sum.splits)
  from g show "created_at g = created" and "ttl_seconds g = ttl" by simp_all
  from g add_seconds_Inr [OF e]
  show "expires_at g = created_at g + ttl_seconds g * 1000000" by simp
next
  assume r: "refresh now extra t = (t', None)"
  then obtain e where e: "add_seconds now (ttl_seconds t + extra) = Inr e"
    and t': "t' = t\<lparr>ttl_seconds := ttl_seconds t + extra, expires_at := e\<rparr>"
    by (auto simp: refresh_def Let_def split: sum.splits)
  from t' show "ttl_seconds t' = ttl_seconds t + extra" and "created_at t' = created_at t"
    by simp_all
  from t' add_seconds_Inr [OF e]
  show x: "expires_at t' = now + ttl_seconds t' * 1000000" by simp
  from t' x
  show "(expires_at t' = created_at t' + ttl_seconds t' * 1000000) = (now = created_at t)"
    by simp
qed

theorem C1_expiry_amended_witness:
  "GlyphToken_init ''G-001'' ANCHOR \<lparr>x = 0, y = 0, z = 1 / 2\<rparr> (1 / 2) ''user'' ''paul'' 10 0 None
     ''User-declared state'' None = Inr example_token \<and>
   refresh 3000000 5 example_token
     = (example_token\<lparr>ttl_seconds := 15, expires_at := 18000000\<rparr>, None) \<and>
   expires_at example_token = created_at example_token + ttl_seconds example_token * 1000000 \<and>
   expires_at (example_token\<lparr>ttl_seconds := 15, expires_at := 18000000\<rparr>)
     = 3000000 + ttl_seconds (example_token\<lparr>ttl_seconds := 15, expires_at := 18000000\<rparr>) * 1000000"
proof -
  have r: "refresh 3000000 5 example_token
     = (example_token\<lparr>ttl_seconds := 15, expires_at := 18000000\<rparr>, None)"
    by (simp add: refresh_def add_seconds_def datetime_max_def example_token_def)
  from C1_expiry_amended [of "''G-001''" ANCHOR "\<lparr>x = 0, y = 0, z = 1 / 2\<rparr>" "1 / 2"
      "''user''" "''paul''" 10 0 "''User-declared state''" None example_token
      3000000 5 example_token "example_token\<lparr>ttl_seconds := 15, expires_at := 18000000\<rparr>"]
    example_token_constructed r
  show ?thesis by simp
qed




section \<open>Properties of the scroll\<close>

lemma match_transition_iff:
  "match_transition ts from_id to_id mutation \<longleftrightarrow>
     (\<exists>t. t \<in> set ts \<and> from_glyph_id t = from_id \<and> to_glyph_id t = to_id \<and>
          mutation_type t = mutation)"
  by (induction ts) auto

text \<open>
  Claim C5: \<open>is_mutation_allowed(kind)\<close> is false when the kind is in the forbidden set,
  also when it is in the allowed set too, and otherwise true exactly when the kind is in
  the allowed set.
\<close>

theorem C5_is_mutation_allowed:
  "is_mutation_allowed s k =
     (if k \<in> forbidden_mutations s then False else k \<in> allowed_mutations s)"
  by (simp add: is_mutation_allowed_def)

theorem C5_is_mutation_allowed_witness:
  "is_mutation_allowed
     (STANDARD_SCROLL\<lparr>forbidden_mutations := {AMPLIFY}\<rparr>) AMPLIFY = False \<and>
   AMPLIFY \<in> allowed_mutations (STANDARD_SCROLL\<lparr>forbidden_mutations := {AMPLIFY}\<rparr>) \<and>
   is_mutation_allowed GENESIS_SCROLL ROTATE = True \<and>
   is_mutation_allowed (GENESIS_SCROLL\<lparr>forbidden_mutations := {}\<rparr>) TRANSFORM = False"
  using C5_is_mutation_allowed [of "STANDARD_SCROLL\<lparr>forbidden_mutations := {AMPLIFY}\<rparr>" AMPLIFY]
    C5_is_mutation_allowed [of GENESIS_SCROLL ROTATE]
    C5_is_mutation_allowed [of "GENESIS_SCROLL\<lparr>forbidden_mutations := {}\<rparr>" TRANSFORM]
  by (simp add: STANDARD_SCROLL_def GENESIS_SCROLL_def)

text \<open>
  Claim C4: \<open>can_transition(from, to, kind)\<close> is false when the scroll disallows the
  mutation kind; otherwise, with a non-empty transition list it is true exactly when a
  transition with that from id, to id and kind is in the list, and with an empty list it
  is true.
\<close>

theorem C4_can_transition:
  "can_transition s from_id to_id k =
     (if \<not> is_mutation_allowed s k then False
      else if transitions s \<noteq> [] then
        (\<exists>t. t \<in> set (transitions s) \<and> from_glyph_id t = from_id \<and> to_glyph_id t = to_id \<and>
             mutation_type t = k)
      else True)"
  by (auto simp: can_transition_def match_transition_iff)

theorem C4_can_transition_witness:
  "can_transition GENESIS_SCROLL ''G-000'' ''G-001'' AMPLIFY = False \<and>
   can_transition GENESIS_SCROLL ''G-000'' ''G-001'' ROTATE = True \<and>
   can_transition (GENESIS_SCROLL\<lparr>transitions := [example_transition]\<rparr>)
     ''G-000'' ''G-001'' ROTATE = True \<and>
   can_transition (GENESIS_SCROLL\<lparr>transitions := [example_transition]\<rparr>)
     ''G-001'' ''G-000'' ROTATE = False \<and>
   can_transition (GENESIS_SCROLL\<lparr>transitions := [example_transition]\<rparr>)
     ''G-000'' ''G-001'' DECAY = False"
  using C4_can_transition [of GENESIS_SCROLL "''G-000''" "''G-001''" AMPLIFY]
    C4_can_transition [of GENESIS_SCROLL "''G-000''" "''G-001''" ROTATE]
    C4_can_transition [of "GENESIS_SCROLL\<lparr>transitions := [example_transition]\<rparr>"
      "''G-000''" "''G-001''" ROTATE]
    C4_can_transition [of "GENESIS_SCROLL\<lparr>transitions := [example_transition]\<rparr>"
      "''G-001''" "''G-000''" ROTATE]
    C4_can_transition [of "GENESIS_SCROLL\<lparr>transitions := [example_transition]\<rparr>"
      "''G-000''" "''G-001''" DECAY]
  by (simp add: GENESIS_SCROLL_def example_transition_def is_mutation_allowed_def)


section \<open>Properties of the validation engine\<close>










lemma compute_checksum_with_checksum:
  "compute_checksum (v\<lparr>checksum := c\<rparr>) = compute_checksum v"
  by (simp add: compute_checksum_def checksum_data_def)

lemma verify_integrity_with_checksum: "verify_integrity (with_checksum v)"
  by (simp add: verify_integrity_def with_checksum_def compute_checksum_with_checksum)

lemma run_checks_eq:
  "run_checks now cs ctx v =
     map (\<lambda>c. run_check now c ctx v)
       (takeWhile (\<lambda>c. \<not> (\<not> passed (run_check now c ctx v) \<and> is_critical c)) cs
        @ take 1 (dropWhile (\<lambda>c. \<not> (\<not> passed (run_check now c ctx v) \<and> is_critical c)) cs))"
  by (induction cs) (auto simp: Let_def)

text \<open>
  Claim C7: for a known validator that passes its integrity check, \<open>validate_transition\<close>
  returns the results of the declared checks in declaration order, up to and including
  the first check that fails and is critical: the checks before it all ran, whether they
  passed or failed without being critical, and no check after it ran. When no critical
  check fails, every declared check has its result in the list.
\<close>

theorem C7_checks_in_order:
  assumes "registry vid = Some v" and "verify_integrity v"
  shows "validate_transition now registry vid ctx =
     map (\<lambda>c. run_check now c ctx v)
       (takeWhile (\<lambda>c. \<not> (\<not> passed (run_check now c ctx v) \<and> is_critical c)) (checks v)
        @ take 1 (dropWhile (\<lambda>c. \<not> (\<not> passed (run_check now c ctx v) \<and> is_critical c)) (checks v)))"
  using assms by (simp add: validate_transition_def run_checks_eq)


theorem C7_checks_in_order_witness:
  "(core_validators(''V-09'' \<mapsto> with_checksum example_validator)) ''V-09''
     = Some (with_checksum example_validator) \<and>
   verify_integrity (with_checksum example_validator) \<and>
   validate_transition 7 (core_validators(''V-09'' \<mapsto> with_checksum example_validator))
     ''V-09'' unauthenticated_context =
     [\<lparr>passed = False, result_validator_id = ''V-09'', check_name = ''max_intensity'',
        message = ''Intensity exceeds maximum'', action = HALT, timestamp = 7\<rparr>,
      \<lparr>passed = False, result_validator_id = ''V-09'',
        check_name = ''authentication_required'',
        message = ''Unauthenticated mutation attempt'', action = HALT, timestamp = 7\<rparr>]"
proof -
  have k: "(core_validators(''V-09'' \<mapsto> with_checksum example_validator)) ''V-09''
     = Some (with_checksum example_validator)"
    by simp
  have c: "checks (with_checksum example_validator) = checks example_validator"
    by (simp add: with_checksum_def)
  have r: "validate_transition 7 (core_validators(''V-09'' \<mapsto> with_checksum example_validator))
     ''V-09'' unauthenticated_context =
     [\<lparr>passed = False, result_validator_id = ''V-09'', check_name = ''max_intensity'',
        message = ''Intensity exceeds maximum'', action = HALT, timestamp = 7\<rparr>,
      \<lparr>passed = False, result_validator_id = ''V-09'',
        check_name = ''authentication_required'',
        message = ''Unauthenticated mutation attempt'', action = HALT, timestamp = 7\<rparr>]"
    unfolding C7_checks_in_order [where registry = "core_validators(''V-09'' \<mapsto> with_checksum example_validator)"
      and vid = "''V-09''" and v = "with_checksum example_validator" and now = 7
      and ctx = unauthenticated_context, OF k verify_integrity_with_checksum] c
    by (simp add: example_validator_def with_checksum_def unauthenticated_context_def
        run_check_def fail_result_def pass_result_def example_token_def)
  from k verify_integrity_with_checksum [of example_validator] r show ?thesis
    by (intro conjI)
qed




section \<open>Properties of the audit log\<close>

lemma state_1_neq_state_2: "state_1 \<noteq> state_2"
  by (simp add: state_1_def state_2_def GlyphToken_dump_def attenuate_def example_token_def)

lemma state_0_neq_state_2: "state_0 \<noteq> state_2"
  by (simp add: state_0_def state_2_def GlyphToken_dump_def attenuate_def example_token_def)

text \<open>
  Claim C8, as stated: for a log that holds, for one token, a created event, two mutated
  events with after-states and a forgotten event, the reconstructed current state is the
  after-state of the last mutation recorded before the deletion. It fails when the
  forgotten event itself carries an after-state, which then is the current state, and
  when the timestamps do not follow the order of recording, since the events are replayed
  in timestamp order: with the clock stepped back before the second mutation, the current
  state is the after-state of the first one.
\<close>

theorem C8_history_counterexample:
  "query_by_glyph forged_log ''G-001'' =
     [example_event CREATED ''G-001'' 1 (Some state_0),
      example_event MUTATED ''G-001'' 3 (Some state_1),
      example_event MUTATED ''G-001'' 4 (Some state_2),
      example_event FORGOTTEN ''G-001'' 6 (Some state_0)] \<and>
   current_state (reconstruct_glyph_history forged_log ''G-001'') = Some state_0 \<and>
   current_state (reconstruct_glyph_history forged_log ''G-001'') \<noteq> Some state_2 \<and>
   query_by_glyph clock_step_log ''G-001'' =
     [example_event CREATED ''G-001'' 1 (Some state_0),
      example_event MUTATED ''G-001'' 4 (Some state_1),
      example_event MUTATED ''G-001'' 3 (Some state_2),
      example_event FORGOTTEN ''G-001'' 6 None] \<and>
   current_state (reconstruct_glyph_history clock_step_log ''G-001'') = Some state_1 \<and>
   current_state (reconstruct_glyph_history clock_step_log ''G-001'') \<noteq> Some state_2"
proof -
  have ne: "state_0 \<noteq> []" "state_1 \<noteq> []" "state_2 \<noteq> []"
    by (simp_all add: state_0_def state_1_def state_2_def GlyphToken_dump_def)
  have q1: "query_by_glyph forged_log ''G-001'' =
     [example_event CREATED ''G-001'' 1 (Some state_0),
      example_event MUTATED ''G-001'' 3 (Some state_1),
      example_event MUTATED ''G-001'' 4 (Some state_2),
      example_event FORGOTTEN ''G-001'' 6 (Some state_0)]"
    by (simp add: query_by_glyph_def read_all_def forged_log_def example_event_def)
  have q2: "query_by_glyph clock_step_log ''G-001'' =
     [example_event CREATED ''G-001'' 1 (Some state_0),
      example_event MUTATED ''G-001'' 4 (Some state_1),
      example_event MUTATED ''G-001'' 3 (Some state_2),
      example_event FORGOTTEN ''G-001'' 6 None]"
    by (simp add: query_by_glyph_def read_all_def clock_step_log_def example_event_def)
  have c1: "current_state (reconstruct_glyph_history forged_log ''G-001'') = Some state_0"
    unfolding reconstruct_glyph_history_def q1 Let_def
    by (simp add: example_event_def history_step_def truthy_def ne Let_def)
  have c2: "current_state (reconstruct_glyph_history clock_step_log ''G-001'') = Some state_1"
    unfolding reconstruct_glyph_history_def q2 Let_def
    by (simp add: example_event_def history_step_def truthy_def ne Let_def)
  from q1 q2 c1 c2 state_1_neq_state_2 state_0_neq_state_2 show ?thesis
    by simp
qed

text \<open>
  Claim C8, amended: for a log whose events for one token id are a created event, then
  two mutated events that each carry a non-empty after-state, then a forgotten event
  that carries no after-state (as the engine's \<open>forget\<close> command records it), with
  timestamps that do not decrease in that order, \<open>reconstruct_glyph_history\<close> for that
  id reports four events, the created event as its creation event, exactly the two
  mutated events as its mutations, and a current state equal to the after-state of the
  second mutated event. Events of other tokens may lie anywhere in the log.
\<close>

theorem C8_history_amended:
  assumes events: "query_by_glyph l gid = [c, m1, m2, f]"
    and types: "event_type c = CREATED" "event_type m1 = MUTATED" "event_type m2 = MUTATED"
      "event_type f = FORGOTTEN"
    and times: "event_timestamp c \<le> event_timestamp m1"
      "event_timestamp m1 \<le> event_timestamp m2" "event_timestamp m2 \<le> event_timestamp f"
    and after: "after_state m1 = Some s1" "s1 \<noteq> []" "after_state m2 = Some s2" "s2 \<noteq> []"
      "after_state f = None"
  shows "total_events (reconstruct_glyph_history l gid) = 4 \<and>
     creation_event (reconstruct_glyph_history l gid) = Some (timeline_entry_of c) \<and>
     mutations (reconstruct_glyph_history l gid) = [timeline_entry_of m1, timeline_entry_of m2] \<and>
     current_state (reconstruct_glyph_history l gid) = Some s2"
proof -
  from times have "sorted (map event_timestamp [c, m1, m2, f])"
    by simp
  then have sorted_id: "sort_key event_timestamp [c, m1, m2, f] = [c, m1, m2, f]"
    by (rule sort_key_id_if_sorted)
  show ?thesis
    unfolding reconstruct_glyph_history_def events Let_def sorted_id
    by (simp add: history_step_def truthy_def types after Let_def)
qed

theorem C8_history_amended_witness:
  "query_by_glyph example_log ''G-001'' =
     [example_event CREATED ''G-001'' 1 (Some state_0),
      example_event MUTATED ''G-001'' 3 (Some state_1),
      example_event MUTATED ''G-001'' 4 (Some state_2),
      example_event FORGOTTEN ''G-001'' 6 None] \<and>
   total_events (reconstruct_glyph_history example_log ''G-001'') = 4 \<and>
   creation_event (reconstruct_glyph_history example_log ''G-001'')
     = Some (timeline_entry_of (example_event CREATED ''G-001'' 1 (Some state_0))) \<and>
   mutations (reconstruct_glyph_history example_log ''G-001'')
     = [timeline_entry_of (example_event MUTATED ''G-001'' 3 (Some state_1)),
        timeline_entry_of (example_event MUTATED ''G-001'' 4 (Some state_2))] \<and>
   current_state (reconstruct_glyph_history example_log ''G-001'') = Some state_2"
proof -
  have q: "query_by_glyph example_log ''G-001'' =
     [example_event CREATED ''G-001'' 1 (Some state_0),
      example_event MUTATED ''G-001'' 3 (Some state_1),
      example_event MUTATED ''G-001'' 4 (Some state_2),
      example_event FORGOTTEN ''G-001'' 6 None]"
    by (simp add: query_by_glyph_def read_all_def example_log_def example_event_def)
  have ne: "state_1 \<noteq> []" "state_2 \<noteq> []"
    by (simp_all add: state_1_def state_2_def GlyphToken_dump_def)
  from C8_history_amended [OF q _ _ _ _ _ _ _ _ ne(1) _ ne(2)] q show ?thesis
    by (simp add: example_event_def)
qed

section \<open>Properties of the store\<close>

lemma load_glyph_cached:
  assumes "load_glyph gid s = (Return (Some r), s1)"
  shows "glyph_cache s1 gid = Some r" and "glyph_files s1 = glyph_files s"
  using assms
  by (auto simp: load_glyph_def new_object_def
      split: option.splits sum.splits prod.splits)

lemma load_glyph_files: "glyph_files (snd (load_glyph gid s)) = glyph_files s"
  by (auto simp: load_glyph_def new_object_def split: option.splits sum.splits prod.splits)

lemma load_glyph_hit:
  "glyph_cache s gid = Some r \<Longrightarrow> load_glyph gid s = (Return (Some r), s)"
  by (simp add: load_glyph_def)

lemma apply_reframe_fields:
  assumes "apply_reframe p g0 = Inr g"
  shows "glyph_class g = (case p_class p of None \<Rightarrow> glyph_class g0
           | Some c \<Rightarrow> (case GlyphClass_of c of Inr cls \<Rightarrow> cls | Inl err \<Rightarrow> glyph_class g0))"
    and "explanation g = (case p_explanation p of None \<Rightarrow> explanation g0 | Some ex \<Rightarrow> ex)"
    and "intensity g = (case p_intensity p of None \<Rightarrow> intensity g0 | Some i \<Rightarrow> i)"
    and "glyph_id g = glyph_id g0" and "expires_at g = expires_at g0"
    and "ttl_seconds g = ttl_seconds g0" and "created_at g = created_at g0"
  using assms
  by (auto simp: apply_reframe_def Let_def split: option.splits sum.splits)

section \<open>Properties of the engine: a rejected reframe\<close>

text \<open>
  Claim C9: when \<open>_cmd_reframe\<close> returns the failure response of a scroll that does not
  permit the transform kind, the target was loaded into the cache as some token object,
  the payload's overrides of class, explanation and intensity have been assigned to that
  object, a later \<open>load_glyph\<close> of the id returns the same object with the overridden
  fields, the glyph files are as before, and the audit log is unchanged.
\<close>

theorem C9_rejected_reframe_mutates_cache:
  assumes call: "cmd_reframe msg now e = (Return resp, e')"
    and rejected: "response_message resp = ''Transform not allowed in current scroll''"
  shows "\<exists>gid r before after.
     target_glyph_id msg = Some gid \<and>
     fst (load_glyph gid (store e)) = Return (Some r) \<and>
     before = objects (snd (load_glyph gid (store e))) r \<and>
     apply_reframe (msg_payload msg) before = Inr after \<and>
     explanation after
       = (case p_explanation (msg_payload msg) of None \<Rightarrow> explanation before | Some ex \<Rightarrow> ex) \<and>
     intensity after
       = (case p_intensity (msg_payload msg) of None \<Rightarrow> intensity before | Some i \<Rightarrow> i) \<and>
     (case p_class (msg_payload msg) of None \<Rightarrow> glyph_class after = glyph_class before
        | Some c \<Rightarrow> GlyphClass_of c = Inr (glyph_class after)) \<and>
     load_glyph gid (store e') = (Return (Some r), store e') \<and>
     objects (store e') r = after \<and>
     glyph_files (store e') = glyph_files (store e) \<and>
     audit e' = audit e \<and>
     \<not> success resp \<and>
     \<not> is_mutation_allowed (get_scroll e ''S-001'') TRANSFORM"
proof -
  from call rejected obtain gid where gid: "target_glyph_id msg = Some gid"
    by (cases "target_glyph_id msg") (auto simp: cmd_reframe_def failure_response_def)
  obtain res s1 where l: "load_glyph gid (store e) = (res, s1)"
    by (cases "load_glyph gid (store e)")
  from call rejected gid l obtain r where r: "res = Return (Some r)"
    by (cases res)
      (auto simp: cmd_reframe_def failure_response_def split: option.splits)
  from call rejected gid l r obtain g where g: "apply_reframe (msg_payload msg) (objects s1 r) = Inr g"
    by (cases "apply_reframe (msg_payload msg) (objects s1 r)")
      (auto simp: cmd_reframe_def Let_def)
  from call rejected gid l r g
  have no: "\<not> is_mutation_allowed (get_scroll e ''S-001'') TRANSFORM"
    and e': "e' = e\<lparr>store := s1\<lparr>objects := (objects s1)(r := g)\<rparr>\<rparr>"
    and resp: "resp = failure_response now ''Transform not allowed in current scroll'' None"
    by (auto simp: cmd_reframe_def Let_def split: if_splits)
  from l r have c: "glyph_cache s1 gid = Some r" and f: "glyph_files s1 = glyph_files (store e)"
    by (simp_all add: load_glyph_cached)
  from c have hit: "load_glyph gid (store e') = (Return (Some r), store e')"
    by (simp add: e' load_glyph_hit)
  have cls: "(case p_class (msg_payload msg) of None \<Rightarrow> glyph_class g = glyph_class (objects s1 r)
        | Some c \<Rightarrow> GlyphClass_of c = Inr (glyph_class g))"
    using g by (auto simp: apply_reframe_def Let_def split: option.splits sum.splits)
  show ?thesis
    using gid l r g hit cls no apply_reframe_fields(2,3) [OF g]
    by (intro exI [of _ gid] exI [of _ r] exI [of _ "objects s1 r"] exI [of _ g])
      (simp add: e' f resp failure_response_def)
qed

section \<open>Properties of the engine: state requests\<close>

lemma create_event_log:
  "log_lines (snd (create_event now ty gid rsn src sess b a vid res l))
     = log_lines l @ [fst (create_event now ty gid rsn src sess b a vid res l)]"
  by (simp add: create_event_def append_event_def Let_def)

lemma create_event_type:
  "event_type (fst (create_event now ty gid rsn src sess b a vid res l)) = ty"
  by (simp add: create_event_def Let_def)

lemma load_all_files: "glyph_files (snd (load_all gids acc s)) = glyph_files s"
proof (induction gids arbitrary: acc s)
  case Nil
  show ?case by simp
next
  case (Cons gid gids)
  obtain res s1 where l: "load_glyph gid s = (res, s1)"
    by (cases "load_glyph gid s")
  with load_glyph_files [of gid s] have f: "glyph_files s1 = glyph_files s"
    by simp
  show ?case
  proof (cases res)
    case (Raise err)
    with l f show ?thesis by simp
  next
    case (Return found)
    with l f Cons.IH show ?thesis
      by (cases found) simp_all
  qed
qed

lemma get_expired_glyphs_files:
  "glyph_files (snd (get_expired_glyphs now s)) = glyph_files s"
  using load_all_files [of "list_glyphs s" "[]" s]
  by (auto simp: get_expired_glyphs_def get_all_glyphs_def split: prod.splits result.splits)

lemma get_active_glyphs_files:
  "glyph_files (snd (get_active_glyphs now s)) = glyph_files s"
  using load_all_files [of "list_glyphs s" "[]" s]
  by (auto simp: get_active_glyphs_def get_all_glyphs_def split: prod.splits result.splits)

lemma delete_glyph_files:
  "set (glyph_files (snd (delete_glyph gid s))) \<subseteq> set (glyph_files s)"
  by (auto simp: delete_glyph_def AList.delete_eq)

lemma decay_loop_Cons:
  "snd (decay_loop now ((gid, r) # expired) e) =
     snd (decay_loop now expired
       (e\<lparr>store := snd (delete_glyph gid (store e)),
          audit := snd (create_event now EXPIRED gid
            (TTL_expired_at (expires_at (objects (store e) r))) ''system''
            (Some (session_id e)) (Some (GlyphToken_dump (objects (store e) r)))
            None None None (audit e))\<rparr>))"
  by (simp add: Let_def split: prod.splits)

lemma decay_loop_frame:
  "config (snd (decay_loop now expired e)) = config e \<and>
   validators (snd (decay_loop now expired e)) = validators e \<and>
   scrolls (snd (decay_loop now expired e)) = scrolls e \<and>
   session_id (snd (decay_loop now expired e)) = session_id e \<and>
   glyph_counter (snd (decay_loop now expired e)) = glyph_counter e"
proof (induction expired arbitrary: e)
  case Nil
  show ?case by simp
next
  case (Cons a expired)
  obtain gid r where a: "a = (gid, r)" by (cases a)
  show ?case
    unfolding a decay_loop_Cons
    by (simp add: Cons.IH)
qed

lemma decay_loop_files:
  "set (glyph_files (store (snd (decay_loop now expired e)))) \<subseteq> set (glyph_files (store e))"
proof (induction expired arbitrary: e)
  case Nil
  show ?case by simp
next
  case (Cons a expired)
  obtain gid r where a: "a = (gid, r)" by (cases a)
  have "set (glyph_files (store (snd (decay_loop now (a # expired) e))))
      \<subseteq> set (glyph_files (snd (delete_glyph gid (store e))))"
    unfolding a decay_loop_Cons
    by (rule subset_trans [OF Cons.IH]) simp
  with delete_glyph_files [of gid "store e"] show ?case
    by blast
qed

lemma decay_loop_log:
  "\<exists>evs. log_lines (audit (snd (decay_loop now expired e))) = log_lines (audit e) @ evs \<and>
         (\<forall>ev \<in> set evs. event_type ev = EXPIRED)"
proof (induction expired arbitrary: e)
  case Nil
  show ?case by simp
next
  case (Cons a expired)
  obtain gid r where a: "a = (gid, r)" by (cases a)
  define ev where "ev = fst (create_event now EXPIRED gid
            (TTL_expired_at (expires_at (objects (store e) r))) ''system''
            (Some (session_id e)) (Some (GlyphToken_dump (objects (store e) r)))
            None None None (audit e))"
  define e1 where "e1 = e\<lparr>store := snd (delete_glyph gid (store e)),
          audit := snd (create_event now EXPIRED gid
            (TTL_expired_at (expires_at (objects (store e) r))) ''system''
            (Some (session_id e)) (Some (GlyphToken_dump (objects (store e) r)))
            None None None (audit e))\<rparr>"
  have l1: "log_lines (audit e1) = log_lines (audit e) @ [ev]"
    by (simp add: e1_def ev_def create_event_log)
  have ty: "event_type ev = EXPIRED"
    by (simp add: ev_def create_event_type)
  from Cons.IH [of e1] obtain evs where
    evs: "log_lines (audit (snd (decay_loop now expired e1))) = log_lines (audit e1) @ evs"
    and tys: "\<forall>ev \<in> set evs. event_type ev = EXPIRED"
    by blast
  have "snd (decay_loop now (a # expired) e) = snd (decay_loop now expired e1)"
    unfolding a decay_loop_Cons e1_def ..
  with evs l1 ty tys show ?case
    by (intro exI [of _ "ev # evs"]) simp
qed

text \<open>What a decay sweep that returns leaves behind.\<close>

lemma run_decay_cycle_frame:
  assumes "fst (run_decay_cycle now e) = Return removed"
  shows "config (after_decay now e) = config e"
    and "validators (after_decay now e) = validators e"
    and "scrolls (after_decay now e) = scrolls e"
    and "session_id (after_decay now e) = session_id e"
    and "glyph_counter (after_decay now e) = glyph_counter e"
    and "set (glyph_files (store (after_decay now e))) \<subseteq> set (glyph_files (store e))"
    and "\<exists>evs. log_lines (audit (after_decay now e)) = log_lines (audit e) @ evs \<and>
           (\<forall>ev \<in> set evs. event_type ev = EXPIRED)"
proof -
  obtain res s1 where g: "get_expired_glyphs now (store e) = (res, s1)"
    by (cases "get_expired_glyphs now (store e)")
  with assms obtain expired where res: "res = Return expired"
    by (cases res) (auto simp: run_decay_cycle_def split: prod.splits)
  from g res have a: "after_decay now e = snd (decay_loop now expired (e\<lparr>store := s1\<rparr>))"
    by (simp add: after_decay_def run_decay_cycle_def split: prod.splits)
  from g get_expired_glyphs_files [of now "store e"]
  have f: "glyph_files s1 = glyph_files (store e)" by simp
  from decay_loop_frame [of now expired "e\<lparr>store := s1\<rparr>"] a
  show "config (after_decay now e) = config e"
    and "validators (after_decay now e) = validators e"
    and "scrolls (after_decay now e) = scrolls e"
    and "session_id (after_decay now e) = session_id e"
    and "glyph_counter (after_decay now e) = glyph_counter e"
    by simp_all
  from decay_loop_files [of now expired "e\<lparr>store := s1\<rparr>"] a f
  show "set (glyph_files (store (after_decay now e))) \<subseteq> set (glyph_files (store e))"
    by simp
  from decay_loop_log [of now expired "e\<lparr>store := s1\<rparr>"] a
  show "\<exists>evs. log_lines (audit (after_decay now e)) = log_lines (audit e) @ evs \<and>
           (\<forall>ev \<in> set evs. event_type ev = EXPIRED)"
    by simp
qed

lemma check_accretion_frame:
  "config (snd (check_accretion now e)) = config e"
  "validators (snd (check_accretion now e)) = validators e"
  "session_id (snd (check_accretion now e)) = session_id e"
  "glyph_counter (snd (check_accretion now e)) = glyph_counter e"
  "audit (snd (check_accretion now e)) = audit e"
  "glyph_files (store (snd (check_accretion now e))) = glyph_files (store e)"
  using get_active_glyphs_files [of now "store e"]
  by (auto simp: check_accretion_def split: prod.splits result.splits)

lemma active_count_Some:
  assumes "active_count now e = Some n"
  shows "\<exists>removed. run_decay_cycle now e = (Return removed, after_decay now e)"
    and "check_accretion now (after_decay now e)
       = (Return (int n < max_active_glyphs (config e)), after_accretion now e)"
proof -
  from assms obtain removed where r: "fst (run_decay_cycle now e) = Return removed"
    by (cases "fst (run_decay_cycle now e)") (auto simp: active_count_def)
  then show "\<exists>removed. run_decay_cycle now e = (Return removed, after_decay now e)"
    by (intro exI [of _ removed]) (simp add: after_decay_def prod_eq_iff)
  from assms r obtain active where
    a: "fst (get_active_glyphs now (store (after_decay now e))) = Return active"
    and n: "n = length active"
    by (cases "fst (get_active_glyphs now (store (after_decay now e)))")
      (auto simp: active_count_def)
  from a n run_decay_cycle_frame(1) [OF r]
  show "check_accretion now (after_decay now e)
       = (Return (int n < max_active_glyphs (config e)), after_accretion now e)"
    by (cases "get_active_glyphs now (store (after_decay now e))")
      (simp add: check_accretion_def after_accretion_def)
qed

lemma handle_state_limit:
  assumes "active_count now e = Some n" and "max_active_glyphs (config e) \<le> int n"
  shows "handle_state msg now e =
     (Return (failure_response now
        ''Glyph limit reached. Run consolidation or wait for decay.'' None),
      after_accretion now e)"
proof -
  from active_count_Some [OF assms(1)] obtain removed where
    d: "run_decay_cycle now e = (Return removed, after_decay now e)"
    and c: "check_accretion now (after_decay now e)
       = (Return (int n < max_active_glyphs (config e)), after_accretion now e)"
    by blast
  from assms(2) have "\<not> int n < max_active_glyphs (config e)" by simp
  with d c show ?thesis
    by (simp add: handle_state_def)
qed

lemma handle_state_validated:
  assumes count: "active_count now e = Some n" and room: "int n < max_active_glyphs (config e)"
    and built: "build_glyph msg (next_glyph_id e) now (config e) = Inr g"
  shows "handle_state msg now e =
     (let e3 = (after_accretion now e)\<lparr>glyph_counter := glyph_counter e + 1\<rparr>;
          results = state_results msg now e g;
          failed = filter (\<lambda>r. \<not> passed r) results
      in if failed \<noteq> [] then
           (Return (failure_response now (''Validation failed: '' @ message (hd failed))
              (Some (map ValidatorResult_dump results))),
            e3\<lparr>audit := snd (create_event now VALIDATION_FAILED (next_glyph_id e)
                (Reason (message (hd failed))) (msg_source msg) (Some (session_id e))
                None None None (Some (map ValidatorResult_dump results))
                (audit (after_decay now e)))\<rparr>)
         else
           (Return \<lparr>success = True, response_message = ''State recorded: '' @ next_glyph_id e,
              response_glyph_id = Some (next_glyph_id e), response_validation_results = None,
              text_output = Some g, response_timestamp = now\<rparr>,
            e3\<lparr>store := save_glyph (fst (new_object g (store (after_accretion now e))))
                   (snd (new_object g (store (after_accretion now e)))),
               audit := snd (create_event now CREATED (next_glyph_id e)
                 (Reason ''State glyph created'') (msg_source msg) (Some (session_id e))
                 None (Some (GlyphToken_dump g)) None None (audit (after_decay now e)))\<rparr>))"
proof -
  from active_count_Some [OF count] obtain removed where
    d: "run_decay_cycle now e = (Return removed, after_decay now e)"
    and c: "check_accretion now (after_decay now e)
       = (Return (int n < max_active_glyphs (config e)), after_accretion now e)"
    by blast
  from d have r: "fst (run_decay_cycle now e) = Return removed" by simp
  note fr = run_decay_cycle_frame(1-5) [OF r]
  have ca: "config (after_accretion now e) = config e"
    "validators (after_accretion now e) = validators e"
    "session_id (after_accretion now e) = session_id e"
    "glyph_counter (after_accretion now e) = glyph_counter e"
    "audit (after_accretion now e) = audit (after_decay now e)"
    unfolding after_accretion_def
    by (simp_all add: check_accretion_frame fr)
  from built have b: "build_glyph msg (''G-'' @ zero_pad 3 (Suc (glyph_counter e))) now (config e) = Inr g"
    by (simp add: next_glyph_id_def)
  show ?thesis
    using d c room b
    by (simp add: handle_state_def Let_def ca next_glyph_id_def state_results_def
        split: prod.splits)
qed

section \<open>The example engine, evaluated\<close>

lemma get_all_example_store:
  "get_all_glyphs example_store = (Return [(''G-000'', 0), (''G-001'', 1)], loaded_store)"
  by (simp add: get_all_glyphs_def list_glyphs_def example_store_def loaded_store_def
      load_glyph_def parse_glyph_def fields_valid_def GlyphVector_init_def new_object_def
      token_A_def example_token_def)

lemma get_all_loaded_store:
  "get_all_glyphs loaded_store = (Return [(''G-000'', 0), (''G-001'', 1)], loaded_store)"
  by (simp add: get_all_glyphs_def list_glyphs_def loaded_store_def load_glyph_def)

lemma get_all_swept_store:
  "get_all_glyphs swept_store = (Return [(''G-000'', 0)], swept_store)"
  by (simp add: get_all_glyphs_def list_glyphs_def swept_store_def load_glyph_def)

lemma loaded_store_objects:
  "objects loaded_store 0 = token_A" "objects loaded_store (Suc 0) = example_token"
  "objects swept_store 0 = token_A"
  by (simp_all add: loaded_store_def swept_store_def)

lemma example_expiries:
  "expires_at token_A = 100000000" "expires_at example_token = 10000000"
  by (simp_all add: token_A_def example_token_def)

lemma decay_example_at_5:
  assumes "store e = example_store"
  shows "run_decay_cycle 5000000 e = (Return [], e\<lparr>store := loaded_store\<rparr>)"
  by (simp add: run_decay_cycle_def get_expired_glyphs_def assms get_all_example_store
      is_expired_def loaded_store_objects example_expiries)

lemma active_example_at_5:
  assumes "store e = example_store"
  shows "active_count 5000000 e = Some 2"
    and "after_accretion 5000000 e = e\<lparr>store := loaded_store\<rparr>"
  by (simp_all add: active_count_def after_accretion_def after_decay_def check_accretion_def
      decay_example_at_5 [OF assms] get_active_glyphs_def get_all_loaded_store is_expired_def
      loaded_store_objects example_expiries)

lemma delete_loaded_G_001:
  "snd (delete_glyph ''G-001'' loaded_store) = swept_store"
  by (simp add: delete_glyph_def loaded_store_def swept_store_def fun_upd_twist)

lemma decay_loaded_at_20:
  assumes "store e = loaded_store"
  shows "fst (run_decay_cycle 20000000 e) = Return [''G-001'']"
    and "store (after_decay 20000000 e) = swept_store"
  by (simp_all add: after_decay_def run_decay_cycle_def get_expired_glyphs_def assms
      get_all_loaded_store is_expired_def loaded_store_objects example_expiries Let_def
      delete_loaded_G_001)

lemma active_loaded_at_20:
  assumes "store e = loaded_store"
  shows "active_count 20000000 e = Some 1"
  by (simp add: active_count_def decay_loaded_at_20 [OF assms] get_active_glyphs_def
      get_all_swept_store is_expired_def loaded_store_objects example_expiries)

lemma example_ids:
  "next_glyph_id example_engine = ''G-002''" "next_glyph_id loaded_engine = ''G-002''"
  "next_glyph_id crowded_engine = ''G-002''" "next_glyph_id lenient_engine = ''G-002''"
proof -
  have two: "show_nat 2 = ''2''"
    by (simp add: show_nat.simps [of 2] digit_char_def)
  then have two': "show_nat (Suc (Suc 0)) = ''2''"
    by (simp add: numeral_2_eq_2)
  have pad: "replicate 2 (CHR ''0'') = ''00''"
    by (simp add: numeral_2_eq_2)
  show "next_glyph_id example_engine = ''G-002''" "next_glyph_id loaded_engine = ''G-002''"
    "next_glyph_id crowded_engine = ''G-002''" "next_glyph_id lenient_engine = ''G-002''"
    by (simp_all add: next_glyph_id_def zero_pad_def two' pad
        example_engine_def loaded_engine_def crowded_engine_def lenient_engine_def)
qed

lemma build_example_request:
  assumes "0 \<le> now" and "now \<le> 1000000000"
  shows "build_glyph example_request ''G-002'' now
     \<lparr>max_active_glyphs = m, default_ttl_seconds = 86400, enable_fast_path = True,
      require_auth = False\<rparr> = Inr (new_token now)"
  using assms
  by (simp add: build_glyph_def example_request_def GlyphClass_of_def GlyphVector_init_def
      GlyphToken_init_def fields_valid_def model_post_init_def add_seconds_def new_token_def
      datetime_max_def Let_def)

lemma build_unauthenticated_request:
  "build_glyph unauthenticated_request gid now cfg = build_glyph example_request gid now cfg"
proof -
  have "msg_payload unauthenticated_request = msg_payload example_request"
    and "msg_source unauthenticated_request = msg_source example_request"
    by (simp_all add: unauthenticated_request_def)
  then show ?thesis
    unfolding build_glyph_def by (simp only:)
qed

lemma core_V_01:
  "core_validators ''V-01'' = Some (with_checksum V_01)"
  by (simp add: core_validators_def)

lemma with_checksum_fields:
  "checks (with_checksum v) = checks v" "validator_id (with_checksum v) = validator_id v"
  "on_fail (with_checksum v) = on_fail v"
  by (simp_all add: with_checksum_def)

lemma result_with_checksum:
  "fail_result (with_checksum v) = fail_result v" "pass_result (with_checksum v) = pass_result v"
  by (simp_all add: fun_eq_iff fail_result_def pass_result_def with_checksum_fields)

lemma run_check_with_checksum:
  "run_check now c ctx (with_checksum v) = run_check now c ctx v"
  unfolding run_check_def result_with_checksum ..

lemma run_checks_with_checksum:
  "run_checks now cs ctx (with_checksum v) = run_checks now cs ctx v"
  by (induction cs) (simp_all add: run_check_with_checksum Let_def)

lemma validate_with_checksum:
  "registry vid = Some (with_checksum v) \<Longrightarrow>
   validate_transition now registry vid ctx = run_checks now (checks v) ctx v"
  by (simp add: validate_transition_def verify_integrity_with_checksum with_checksum_fields
      run_checks_with_checksum)

lemma results_example_request:
  assumes "validators e = core_validators"
  shows "state_results example_request now e (new_token t) =
     [passing ''no_recursive_amplification'' now, passing ''no_identity_fixation'' now,
      passing ''ttl_required'' now, passing ''max_intensity'' now,
      passing ''authentication_required'' now]"
  unfolding state_results_def assms
    validate_with_checksum [where registry = core_validators and vid = "''V-01''", OF core_V_01]
  by (simp add: V_01_def run_check_def pass_result_def fail_result_def passing_def
      state_context_def example_request_def is_authenticated_def new_token_def
      lower_def lower_char_def)

lemma results_unauthenticated_request:
  assumes "validators e = core_validators"
  shows "state_results unauthenticated_request now e (new_token t) =
     [passing ''no_recursive_amplification'' now, passing ''no_identity_fixation'' now,
      passing ''ttl_required'' now, passing ''max_intensity'' now,
      \<lparr>passed = False, result_validator_id = ''V-01'',
       check_name = ''authentication_required'',
       message = ''Unauthenticated mutation attempt'', action = HALT, timestamp = now\<rparr>]"
  unfolding state_results_def assms
    validate_with_checksum [where registry = core_validators and vid = "''V-01''", OF core_V_01]
  by (simp add: V_01_def run_check_def pass_result_def fail_result_def passing_def
      state_context_def example_request_def unauthenticated_request_def is_authenticated_def
      new_token_def lower_def lower_char_def)

theorem C9_rejected_reframe_witness:
  "cmd_reframe reframe_request 7 reframe_engine =
     (Return (failure_response 7 ''Transform not allowed in current scroll'' None),
      reframe_engine\<lparr>store := reframed_store\<rparr>) \<and>
   map_of (glyph_files (store reframe_engine)) ''G-001'' = Some example_token \<and>
   load_glyph ''G-001'' reframed_store = (Return (Some 0), reframed_store) \<and>
   objects reframed_store 0
     = example_token\<lparr>glyph_class := WARNING, explanation := ''reframed'', intensity := 5\<rparr> \<and>
   glyph_files reframed_store = glyph_files (store reframe_engine) \<and>
   audit (reframe_engine\<lparr>store := reframed_store\<rparr>) = audit reframe_engine"
proof -
  have parse: "parse_glyph example_token = Inr example_token"
    by (simp add: parse_glyph_def fields_valid_def GlyphVector_init_def example_token_def)
  have load: "load_glyph ''G-001'' (store reframe_engine) =
     (Return (Some 0), reframed_store\<lparr>objects := (\<lambda>r. token_A)(0 := example_token)\<rparr>)"
    by (simp add: reframe_engine_def example_engine_def example_store_def reframed_store_def
        load_glyph_def parse new_object_def)
  have over: "apply_reframe (msg_payload reframe_request) example_token
     = Inr (example_token\<lparr>glyph_class := WARNING, explanation := ''reframed'', intensity := 5\<rparr>)"
    by (simp add: apply_reframe_def reframe_request_def GlyphClass_of_def)
  have scroll: "\<not> is_mutation_allowed (get_scroll reframe_engine ''S-001'') TRANSFORM"
    by (simp add: get_scroll_def reframe_engine_def is_mutation_allowed_def)
  have tgt: "target_glyph_id reframe_request = Some ''G-001''"
    by (simp add: reframe_request_def)
  have upd: "reframed_store\<lparr>objects := (\<lambda>r. token_A)
      (0 := example_token\<lparr>glyph_class := WARNING, explanation := ''reframed'',
         intensity := 5\<rparr>)\<rparr> = reframed_store"
    by (simp add: reframed_store_def)
  have call: "cmd_reframe reframe_request 7 reframe_engine =
     (Return (failure_response 7 ''Transform not allowed in current scroll'' None),
      reframe_engine\<lparr>store := reframed_store\<rparr>)"
    unfolding cmd_reframe_def tgt
    by (simp add: load over scroll upd Let_def)
  have rej: "response_message (failure_response 7 ''Transform not allowed in current scroll'' None)
      = ''Transform not allowed in current scroll''"
    by (simp add: failure_response_def)
  have E': "store (reframe_engine\<lparr>store := reframed_store\<rparr>) = reframed_store"
    by simp
  from C9_rejected_reframe_mutates_cache [OF call rej]
  obtain gid r where
    t: "target_glyph_id reframe_request = Some gid"
    and l: "load_glyph gid (store (reframe_engine\<lparr>store := reframed_store\<rparr>))
        = (Return (Some r), store (reframe_engine\<lparr>store := reframed_store\<rparr>))"
    and f: "glyph_files (store (reframe_engine\<lparr>store := reframed_store\<rparr>))
        = glyph_files (store reframe_engine)"
    and a: "audit (reframe_engine\<lparr>store := reframed_store\<rparr>) = audit reframe_engine"
    by (elim exE conjE) (rule that)
  from t tgt have gid: "gid = ''G-001''"
    by simp
  have c: "glyph_cache reframed_store ''G-001'' = Some 0"
    by (simp add: reframed_store_def)
  from l have l': "load_glyph ''G-001'' reframed_store = (Return (Some r), reframed_store)"
    unfolding gid E' .
  with load_glyph_hit [OF c] have r: "r = 0"
    by simp
  have m: "map_of (glyph_files (store reframe_engine)) ''G-001'' = Some example_token"
    by (simp add: reframe_engine_def example_engine_def example_store_def)
  have obj: "objects reframed_store 0
     = example_token\<lparr>glyph_class := WARNING, explanation := ''reframed'', intensity := 5\<rparr>"
    by (simp add: reframed_store_def)
  from f have f': "glyph_files reframed_store = glyph_files (store reframe_engine)"
    unfolding E' .
  from l' r have l0: "load_glyph ''G-001'' reframed_store = (Return (Some 0), reframed_store)"
    by simp
  from call m l0 obj f' a show ?thesis
    by (intro conjI)
qed

section \<open>Properties of the engine: rejected and accepted state requests\<close>

lemma build_glyph_id:
  "build_glyph msg gid now cfg = Inr g \<Longrightarrow> glyph_id g = gid"
  by (auto simp: build_glyph_def GlyphToken_init_def Let_def split: sum.splits if_splits)

lemma after_accretion_frame:
  assumes "active_count now e = Some n"
  shows "glyph_files (store (after_accretion now e)) = glyph_files (store (after_decay now e))"
    and "audit (after_accretion now e) = audit (after_decay now e)"
    and "glyph_counter (after_accretion now e) = glyph_counter e"
    and "set (glyph_files (store (after_decay now e))) \<subseteq> set (glyph_files (store e))"
    and "\<exists>evs. log_lines (audit (after_decay now e)) = log_lines (audit e) @ evs \<and>
           (\<forall>ev \<in> set evs. event_type ev = EXPIRED)"
proof -
  from active_count_Some(1) [OF assms] obtain removed where
    "fst (run_decay_cycle now e) = Return removed"
    by force
  note fr = run_decay_cycle_frame [OF this]
  show "glyph_files (store (after_accretion now e)) = glyph_files (store (after_decay now e))"
    and "audit (after_accretion now e) = audit (after_decay now e)"
    and "glyph_counter (after_accretion now e) = glyph_counter e"
    by (simp_all add: after_accretion_def check_accretion_frame fr)
  from fr(6) show "set (glyph_files (store (after_decay now e))) \<subseteq> set (glyph_files (store e))" .
  from fr(7) show "\<exists>evs. log_lines (audit (after_decay now e)) = log_lines (audit e) @ evs \<and>
           (\<forall>ev \<in> set evs. event_type ev = EXPIRED)" .
qed


text \<open>
  Claim C6, amended. First part: when the number of active glyphs that the accretion
  check counts is at or above the ceiling, a state request returns the failure response
  of the glyph limit, no glyph file is added, no glyph id is handed out, and every event
  appended to the log is an \<open>expired\<close> event of the sweep, so neither a \<open>created\<close> nor a
  validation event. Second part: when that number is below the ceiling (as after tokens
  have expired and been swept) and the request's token is built and passes every check of
  V-01, the request succeeds: the response carries the new id and the token, the token
  is in its glyph file and in the cache, and a \<open>created\<close> event with its dump is appended.
\<close>

theorem C6_accretion_amended:
  "(active_count now e = Some n \<and> max_active_glyphs (config e) \<le> int n \<longrightarrow>
      fst (handle_state msg now e) =
        Return (failure_response now
          ''Glyph limit reached. Run consolidation or wait for decay.'' None) \<and>
      set (glyph_files (store (snd (handle_state msg now e)))) \<subseteq> set (glyph_files (store e)) \<and>
      glyph_counter (snd (handle_state msg now e)) = glyph_counter e \<and>
      (\<exists>evs. log_lines (audit (snd (handle_state msg now e))) = log_lines (audit e) @ evs \<and>
         (\<forall>ev \<in> set evs. event_type ev = EXPIRED))) \<and>
   (active_count now e = Some n \<and> int n < max_active_glyphs (config e) \<and>
    build_glyph msg (next_glyph_id e) now (config e) = Inr g \<and>
    (\<forall>r \<in> set (state_results msg now e g). passed r) \<longrightarrow>
      fst (handle_state msg now e) =
        Return \<lparr>success = True, response_message = ''State recorded: '' @ next_glyph_id e,
          response_glyph_id = Some (next_glyph_id e), response_validation_results = None,
          text_output = Some g, response_timestamp = now\<rparr> \<and>
      map_of (glyph_files (store (snd (handle_state msg now e)))) (next_glyph_id e) = Some g \<and>
      (\<exists>ref. glyph_cache (store (snd (handle_state msg now e))) (next_glyph_id e) = Some ref \<and>
         objects (store (snd (handle_state msg now e))) ref = g) \<and>
      log_lines (audit (snd (handle_state msg now e))) =
        log_lines (audit (after_decay now e)) @
        [\<lparr>event_id = ''A-'' @ zero_pad 6 (event_counter (audit (after_decay now e)) + 1),
          event_type = CREATED, event_glyph_id = next_glyph_id e,
          event_timestamp = now, event_source = msg_source msg,
          event_session_id = Some (session_id e),
          event_reason = Reason ''State glyph created'',
          before_state = None, after_state = Some (GlyphToken_dump g),
          event_validator_id = None, validation_results = None\<rparr>])"
proof (intro conjI impI)
  assume a: "active_count now e = Some n \<and> max_active_glyphs (config e) \<le> int n"
  then have count: "active_count now e = Some n" and full: "max_active_glyphs (config e) \<le> int n"
    by simp_all
  note h = handle_state_limit [OF count full, of msg]
  note fr = after_accretion_frame [OF count]
  show "fst (handle_state msg now e) =
        Return (failure_response now
          ''Glyph limit reached. Run consolidation or wait for decay.'' None)"
    by (simp add: h)
  show "set (glyph_files (store (snd (handle_state msg now e)))) \<subseteq> set (glyph_files (store e))"
    using fr(4) by (simp add: h fr(1))
  show "glyph_counter (snd (handle_state msg now e)) = glyph_counter e"
    by (simp add: h fr(3))
  show "\<exists>evs. log_lines (audit (snd (handle_state msg now e))) = log_lines (audit e) @ evs \<and>
         (\<forall>ev \<in> set evs. event_type ev = EXPIRED)"
    using fr(5) by (simp add: h fr(2))
next
  assume b: "active_count now e = Some n \<and> int n < max_active_glyphs (config e) \<and>
    build_glyph msg (next_glyph_id e) now (config e) = Inr g \<and>
    (\<forall>r \<in> set (state_results msg now e g). passed r)"
  then have count: "active_count now e = Some n" and room: "int n < max_active_glyphs (config e)"
    and built: "build_glyph msg (next_glyph_id e) now (config e) = Inr g"
    and ok: "\<forall>r \<in> set (state_results msg now e g). passed r"
    by simp_all
  from ok have f: "filter (\<lambda>r. \<not> passed r) (state_results msg now e g) = []"
    by (simp add: filter_empty_conv)
  from build_glyph_id [OF built] have gid: "glyph_id g = next_glyph_id e" .
  from handle_state_validated [OF count room built] f
  have h: "handle_state msg now e =
     (Return \<lparr>success = True, response_message = ''State recorded: '' @ next_glyph_id e,
        response_glyph_id = Some (next_glyph_id e), response_validation_results = None,
        text_output = Some g, response_timestamp = now\<rparr>,
      (after_accretion now e)\<lparr>glyph_counter := glyph_counter e + 1,
        store := save_glyph (fst (new_object g (store (after_accretion now e))))
                   (snd (new_object g (store (after_accretion now e)))),
        audit := snd (create_event now CREATED (next_glyph_id e)
          (Reason ''State glyph created'') (msg_source msg) (Some (session_id e))
          None (Some (GlyphToken_dump g)) None None (audit (after_decay now e)))\<rparr>)"
    by (simp add: Let_def)
  show "fst (handle_state msg now e) =
        Return \<lparr>success = True, response_message = ''State recorded: '' @ next_glyph_id e,
          response_glyph_id = Some (next_glyph_id e), response_validation_results = None,
          text_output = Some g, response_timestamp = now\<rparr>"
    by (simp add: h)
  show "map_of (glyph_files (store (snd (handle_state msg now e)))) (next_glyph_id e) = Some g"
    by (simp add: h save_glyph_def new_object_def Let_def gid update_conv')
  show "\<exists>ref. glyph_cache (store (snd (handle_state msg now e))) (next_glyph_id e) = Some ref \<and>
         objects (store (snd (handle_state msg now e))) ref = g"
    by (simp add: h save_glyph_def new_object_def Let_def gid)
  show "log_lines (audit (snd (handle_state msg now e))) =
        log_lines (audit (after_decay now e)) @
        [\<lparr>event_id = ''A-'' @ zero_pad 6 (event_counter (audit (after_decay now e)) + 1),
          event_type = CREATED, event_glyph_id = next_glyph_id e,
          event_timestamp = now, event_source = msg_source msg,
          event_session_id = Some (session_id e),
          event_reason = Reason ''State glyph created'',
          before_state = None, after_state = Some (GlyphToken_dump g),
          event_validator_id = None, validation_results = None\<rparr>]"
    by (simp add: h create_event_def append_event_def Let_def)
qed

section \<open>State requests on the example engine\<close>

lemma example_configs:
  "config example_engine = \<lparr>max_active_glyphs = 2, default_ttl_seconds = 86400,
     enable_fast_path = True, require_auth = False\<rparr>"
  "config loaded_engine = \<lparr>max_active_glyphs = 2, default_ttl_seconds = 86400,
     enable_fast_path = True, require_auth = False\<rparr>"
  "config crowded_engine = \<lparr>max_active_glyphs = 1, default_ttl_seconds = 86400,
     enable_fast_path = True, require_auth = False\<rparr>"
  "config lenient_engine = \<lparr>max_active_glyphs = 5, default_ttl_seconds = 86400,
     enable_fast_path = True, require_auth = False\<rparr>"
  by (simp_all add: example_engine_def loaded_engine_def crowded_engine_def lenient_engine_def)

lemma example_stores:
  "store example_engine = example_store" "store loaded_engine = loaded_store"
  "store crowded_engine = example_store" "store lenient_engine = example_store"
  "store (crowded_engine\<lparr>store := loaded_store\<rparr>) = loaded_store"
  by (simp_all add: example_engine_def loaded_engine_def crowded_engine_def lenient_engine_def)

lemma example_registries:
  "validators example_engine = core_validators" "validators loaded_engine = core_validators"
  by (simp_all add: example_engine_def loaded_engine_def)



lemma after_accretion_at_20:
  assumes "store e = loaded_store"
  shows "store (after_accretion 20000000 e) = swept_store"
  by (simp add: after_accretion_def check_accretion_def decay_loaded_at_20 [OF assms]
      get_active_glyphs_def get_all_swept_store)

lemma swept_files:
  "list_glyphs swept_store = [''G-000'']" "list_glyphs loaded_store = [''G-000'', ''G-001'']"
  "glyph_files swept_store = [(''G-000'', token_A)]"
  by (simp_all add: list_glyphs_def swept_store_def loaded_store_def)

text \<open>
  Claim C6, as stated: with the active count at or above the ceiling a state request
  fails, and after one token has expired and been swept an identical request succeeds.
  The second half fails in two ways. With the ceiling at 2 and two active glyphs, the
  unauthenticated request of the repository's accretion test fails at second 5 with the
  glyph limit; at second 20 G-001 has expired and is swept, and the identical request
  fails validation. With the ceiling at 1 and the same two glyphs, the count is above the
  ceiling, and after G-001 is swept the identical authenticated request still fails with
  the glyph limit.
\<close>

theorem C6_accretion_counterexample:
  "active_count 5000000 example_engine = Some 2 \<and>
   max_active_glyphs (config example_engine) = 2 \<and>
   handle_state unauthenticated_request 5000000 example_engine =
     (Return (failure_response 5000000
        ''Glyph limit reached. Run consolidation or wait for decay.'' None), loaded_engine) \<and>
   list_glyphs (store loaded_engine) = [''G-000'', ''G-001''] \<and>
   fst (handle_state unauthenticated_request 20000000 loaded_engine) =
     Return (failure_response 20000000 ''Validation failed: Unauthenticated mutation attempt''
       (Some (map ValidatorResult_dump (unauthenticated_results 20000000)))) \<and>
   list_glyphs (store (snd (handle_state unauthenticated_request 20000000 loaded_engine)))
     = [''G-000''] \<and>
   active_count 5000000 crowded_engine = Some 2 \<and>
   max_active_glyphs (config crowded_engine) = 1 \<and>
   handle_state example_request 5000000 crowded_engine =
     (Return (failure_response 5000000
        ''Glyph limit reached. Run consolidation or wait for decay.'' None),
      crowded_engine\<lparr>store := loaded_store\<rparr>) \<and>
   fst (handle_state example_request 20000000 (crowded_engine\<lparr>store := loaded_store\<rparr>)) =
     Return (failure_response 20000000
        ''Glyph limit reached. Run consolidation or wait for decay.'' None) \<and>
   list_glyphs (store (snd (handle_state example_request 20000000
     (crowded_engine\<lparr>store := loaded_store\<rparr>)))) = [''G-000'']"
proof -
  have c5: "active_count 5000000 example_engine = Some 2"
    and k5: "active_count 5000000 crowded_engine = Some 2"
    by (simp_all add: active_example_at_5 example_stores)
  have c20: "active_count 20000000 loaded_engine = Some 1"
    and k20: "active_count 20000000 (crowded_engine\<lparr>store := loaded_store\<rparr>) = Some 1"
    by (simp_all add: active_loaded_at_20 example_stores)
  have m: "max_active_glyphs (config example_engine) = 2"
    "max_active_glyphs (config crowded_engine) = 1"
    "max_active_glyphs (config (crowded_engine\<lparr>store := loaded_store\<rparr>)) = 1"
    "max_active_glyphs (config loaded_engine) = 2"
    by (simp_all add: example_configs)
  have h1: "handle_state unauthenticated_request 5000000 example_engine =
     (Return (failure_response 5000000
        ''Glyph limit reached. Run consolidation or wait for decay.'' None), loaded_engine)"
    using handle_state_limit [OF c5, of unauthenticated_request]
    by (simp add: m active_example_at_5(2) example_stores loaded_engine_def)
  have h3: "handle_state example_request 5000000 crowded_engine =
     (Return (failure_response 5000000
        ''Glyph limit reached. Run consolidation or wait for decay.'' None),
      crowded_engine\<lparr>store := loaded_store\<rparr>)"
    using handle_state_limit [OF k5, of example_request]
    by (simp add: m active_example_at_5(2) example_stores)
  have h4: "handle_state example_request 20000000 (crowded_engine\<lparr>store := loaded_store\<rparr>) =
     (Return (failure_response 20000000
        ''Glyph limit reached. Run consolidation or wait for decay.'' None),
      after_accretion 20000000 (crowded_engine\<lparr>store := loaded_store\<rparr>))"
    using handle_state_limit [OF k20, of example_request]
    by (simp add: m)
  have b: "build_glyph unauthenticated_request (next_glyph_id loaded_engine) 20000000
      (config loaded_engine) = Inr (new_token 20000000)"
    by (simp add: build_unauthenticated_request example_ids example_configs
        build_example_request)
  have r: "state_results unauthenticated_request 20000000 loaded_engine (new_token 20000000)
      = unauthenticated_results 20000000"
    by (simp add: results_unauthenticated_request example_registries unauthenticated_results_def)
  have f: "filter (\<lambda>r. \<not> passed r) (unauthenticated_results 20000000) =
     [\<lparr>passed = False, result_validator_id = ''V-01'',
       check_name = ''authentication_required'',
       message = ''Unauthenticated mutation attempt'', action = HALT, timestamp = 20000000\<rparr>]"
    by (simp add: unauthenticated_results_def passing_def)
  have h2: "fst (handle_state unauthenticated_request 20000000 loaded_engine) =
     Return (failure_response 20000000 ''Validation failed: Unauthenticated mutation attempt''
       (Some (map ValidatorResult_dump (unauthenticated_results 20000000))))"
    and s2: "store (snd (handle_state unauthenticated_request 20000000 loaded_engine))
      = store (after_accretion 20000000 loaded_engine)"
    unfolding handle_state_validated [OF c20 _ b, unfolded m r, simplified]
    by (simp_all add: f Let_def)
  from c5 k5 m h1 h2 h3 h4 s2 show ?thesis
    by (simp add: after_accretion_at_20 example_stores swept_files)
qed

theorem C6_accretion_amended_witness:
  "active_count 5000000 example_engine = Some 2 \<and>
   max_active_glyphs (config example_engine) \<le> int 2 \<and>
   fst (handle_state example_request 5000000 example_engine) =
     Return (failure_response 5000000
       ''Glyph limit reached. Run consolidation or wait for decay.'' None) \<and>
   glyph_counter (snd (handle_state example_request 5000000 example_engine))
     = glyph_counter example_engine \<and>
   active_count 20000000 loaded_engine = Some 1 \<and>
   int 1 < max_active_glyphs (config loaded_engine) \<and>
   build_glyph example_request (next_glyph_id loaded_engine) 20000000 (config loaded_engine)
     = Inr (new_token 20000000) \<and>
   list_all passed (state_results example_request 20000000 loaded_engine (new_token 20000000)) \<and>
   fst (handle_state example_request 20000000 loaded_engine) =
     Return \<lparr>success = True, response_message = ''State recorded: G-002'',
       response_glyph_id = Some ''G-002'', response_validation_results = None,
       text_output = Some (new_token 20000000), response_timestamp = 20000000\<rparr> \<and>
   map_of (glyph_files (store (snd (handle_state example_request 20000000 loaded_engine))))
     ''G-002'' = Some (new_token 20000000)"
proof -
  have c5: "active_count 5000000 example_engine = Some 2"
    by (simp add: active_example_at_5 example_stores)
  have c20: "active_count 20000000 loaded_engine = Some 1"
    by (simp add: active_loaded_at_20 example_stores)
  have full: "max_active_glyphs (config example_engine) \<le> int 2"
    and room: "int 1 < max_active_glyphs (config loaded_engine)"
    by (simp_all add: example_configs)
  have b: "build_glyph example_request (next_glyph_id loaded_engine) 20000000
      (config loaded_engine) = Inr (new_token 20000000)"
    by (simp add: example_ids example_configs build_example_request)
  have r: "\<forall>r \<in> set (state_results example_request 20000000 loaded_engine
      (new_token 20000000)). passed r"
    by (simp add: results_example_request example_registries passing_def)
  then have r': "list_all passed (state_results example_request 20000000 loaded_engine
      (new_token 20000000))"
    by (simp add: list_all_iff)
  from C6_accretion_amended [of 5000000 example_engine 2 example_request "new_token 0"] c5 full
  have first: "fst (handle_state example_request 5000000 example_engine) =
     Return (failure_response 5000000
       ''Glyph limit reached. Run consolidation or wait for decay.'' None)"
    and counter: "glyph_counter (snd (handle_state example_request 5000000 example_engine))
     = glyph_counter example_engine"
    by blast+
  from C6_accretion_amended [of 20000000 loaded_engine 1 example_request "new_token 20000000"]
    c20 room b r
  have second: "fst (handle_state example_request 20000000 loaded_engine) =
     Return \<lparr>success = True,
       response_message = ''State recorded: '' @ next_glyph_id loaded_engine,
       response_glyph_id = Some (next_glyph_id loaded_engine),
       response_validation_results = None,
       text_output = Some (new_token 20000000), response_timestamp = 20000000\<rparr>"
    and saved: "map_of (glyph_files (store (snd (handle_state example_request 20000000
       loaded_engine)))) (next_glyph_id loaded_engine) = Some (new_token 20000000)"
    by blast+
  from c5 full first counter c20 room b r' second saved show ?thesis
    by (simp add: example_ids)
qed


end
